theory Spec2Isabelle
  imports Complex_Main "HOL-Library.Option_ord" "HOL-Library.Multiset"
begin

text \<open>
  The server of this repository (server.js, db.js and the schema) is an Express
  application on one SQLite file: registration and login, a product catalog with
  filters, a wishlist for each user, and routes for administrators. The model follows
  server.js handler by handler. A request is handled as a function from the database
  before it to a response and the database after it, one request at a time. The
  libraries the server calls (jsonwebtoken, bcrypt, JSON, the SQLite binding) are
  parameters of the model; the SQLite engine is modelled for the statements the server
  issues. The rate limiter and CORS, which stand in front of every route, are left out:
  the requests considered are those that reach a route.
\<close>

section \<open>JavaScript values\<close>

text \<open>
  Request bodies are parsed JSON, query strings are parsed into strings, arrays and
  objects, and a property that is not there reads as \<open>undefined\<close>. One datatype
  covers all of them.
\<close>

datatype jsval =
    JUndefined
  | JNull
  | JBool bool
  | JNum real
  | JStr string
  | JArr "jsval list"
  | JObj "(string \<times> jsval) list"

text \<open>The truthiness test of \<open>if (v)\<close>, \<open>!v\<close> and \<open>v || d\<close>.\<close>

fun truthy :: "jsval \<Rightarrow> bool" where
  "truthy JUndefined = False"
| "truthy JNull = False"
| "truthy (JBool b) = b"
| "truthy (JNum r) = (r \<noteq> 0)"
| "truthy (JStr s) = (s \<noteq> [])"
| "truthy (JArr xs) = True"
| "truthy (JObj kvs) = True"

definition js_or :: "jsval \<Rightarrow> jsval \<Rightarrow> jsval" where
  "js_or v d = (if truthy v then v else d)"

text \<open>Property access \<open>obj.k\<close> on an object given by its key/value pairs.\<close>

definition get_prop :: "(string \<times> jsval) list \<Rightarrow> string \<Rightarrow> jsval" where
  "get_prop obj k = (case map_of obj k of None \<Rightarrow> JUndefined | Some v \<Rightarrow> v)"

text \<open>\<open>Array.prototype.join\<close> on an array of strings.\<close>

fun join :: "string \<Rightarrow> string list \<Rightarrow> string" where
  "join sep [] = []"
| "join sep [x] = x"
| "join sep (x # y # ys) = x @ sep @ join sep (y # ys)"

section \<open>The libraries the server calls\<close>

text \<open>
  The claims of a signed token, as \<open>jwt.sign\<close> receives them in \<open>/api/register\<close> and
  \<open>/api/login\<close>: the user id (an integer row id), the email and the admin flag
  (the integer column \<open>is_admin\<close>, or the literal \<open>0\<close>).
\<close>

record claims =
  c_id :: int
  c_email :: jsval
  c_is_admin :: int

text \<open>
  Everything the server takes from outside its own two files is a field of the
  environment: the configured secret, and the library functions of jsonwebtoken, bcrypt,
  JSON and the SQLite binding. A library call that throws or rejects returns \<open>None\<close>.
  \<^item> \<open>jwt_sign payload secret now\<close> is \<open>jwt.sign(payload, secret, {expiresIn: '7d'})\<close>
    evaluated at time \<open>now\<close>; \<open>jwt_verify token secret now\<close> is \<open>jwt.verify\<close>, which
    throws on a malformed, wrongly signed or expired token.
  \<^item> \<open>bcrypt_hash data rounds salt\<close> is \<open>bcrypt.hash\<close> with the random salt it draws made
    an argument; \<open>bcrypt_compare data hash\<close> is \<open>bcrypt.compare\<close>.
  \<^item> \<open>num_string\<close> is JavaScript's number-to-string conversion.
  \<^item> \<open>sql_int\<close> and \<open>sql_real\<close> give what SQLite stores in an INTEGER or REAL column
    for a bound value that is not already of that type, \<open>sql_text\<close> the text it stores
    in a TEXT column for a bound number or boolean.
\<close>

record env =
  JWT_SECRET :: string
  jwt_sign :: "claims \<Rightarrow> string \<Rightarrow> nat \<Rightarrow> string"
  jwt_verify :: "string \<Rightarrow> string \<Rightarrow> nat \<Rightarrow> claims option"
  bcrypt_hash :: "jsval \<Rightarrow> nat \<Rightarrow> nat \<Rightarrow> string option"
  bcrypt_compare :: "jsval \<Rightarrow> string \<Rightarrow> bool option"
  JSON_parse :: "string \<Rightarrow> jsval option"
  JSON_stringify :: "jsval \<Rightarrow> string"
  num_string :: "real \<Rightarrow> string"
  sql_text :: "jsval \<Rightarrow> string"
  sql_int :: "jsval \<Rightarrow> int option"
  sql_real :: "jsval \<Rightarrow> real option"

text \<open>
  JavaScript's \<open>String(v)\<close>, which a template literal applies to an interpolated
  value: an array joins its elements with commas (\<open>null\<close> and \<open>undefined\<close> elements as
  empty strings), a plain object is \<open>[object Object]\<close>.
\<close>

fun js_String :: "env \<Rightarrow> jsval \<Rightarrow> string" where
  "js_String E JUndefined = ''undefined''"
| "js_String E JNull = ''null''"
| "js_String E (JBool b) = (if b then ''true'' else ''false'')"
| "js_String E (JNum r) = num_string E r"
| "js_String E (JStr s) = s"
| "js_String E (JArr xs) =
     join '','' (map (\<lambda>x. if x = JUndefined \<or> x = JNull then [] else js_String E x) xs)"
| "js_String E (JObj kvs) = ''[object Object]''"

section \<open>The catalog query builder\<close>

text \<open>
  The first half of \<open>app.get('/api/products')\<close> (server.js, lines 101 to 112): the SQL
  text and the parameter list handed to \<open>allAsync\<close>. The two arrays \<open>conditions\<close> and
  \<open>params\<close> are threaded through the three \<open>if\<close> statements in order.
\<close>

definition build_query :: "env \<Rightarrow> (string \<times> jsval) list \<Rightarrow> string \<times> jsval list" where
  "build_query E query =
     (let category = get_prop query ''category'';
          age_group = get_prop query ''age_group'';
          q = get_prop query ''q'';
          sort_v = get_prop query ''sort'';
          sql = ''SELECT * FROM products'';
          conditions = [];
          params = [];
          (conditions, params) =
            (if truthy category
             then (conditions @ [''category = ?''], params @ [category])
             else (conditions, params));
          (conditions, params) =
            (if truthy age_group
             then (conditions @ [''age_group = ?''], params @ [age_group])
             else (conditions, params));
          (conditions, params) =
            (if truthy q
             then (conditions @ [''(name LIKE ? OR description LIKE ?)''],
                   params @ [JStr (''%'' @ js_String E q @ ''%''),
                             JStr (''%'' @ js_String E q @ ''%'')])
             else (conditions, params));
          sql = (if length conditions \<noteq> 0
                 then sql @ '' WHERE '' @ join '' AND '' conditions else sql);
          sql = (if sort_v = JStr ''price_asc'' then sql @ '' ORDER BY price ASC''
                 else if sort_v = JStr ''price_desc'' then sql @ '' ORDER BY price DESC''
                 else if sort_v = JStr ''newest'' then sql @ '' ORDER BY created_at DESC''
                 else sql @ '' ORDER BY id DESC'')
      in (sql, params))"

text \<open>The recognised sort keywords; every other value of \<open>sort\<close> is the default.\<close>

datatype sort_keyword = PriceAsc | PriceDesc | Newest | DefaultOrder

definition sort_kind :: "jsval \<Rightarrow> sort_keyword" where
  "sort_kind sort_v =
     (if sort_v = JStr ''price_asc'' then PriceAsc
      else if sort_v = JStr ''price_desc'' then PriceDesc
      else if sort_v = JStr ''newest'' then Newest
      else DefaultOrder)"

section \<open>The database\<close>

text \<open>
  The three tables of the schema (the \<open>CREATE TABLE\<close> statements that follow db.js).
  A column holds a value of its declared type; a column that some statement of
  server.js can leave or set to NULL is an \<open>option\<close>. The password column only ever
  receives a bcrypt hash and \<open>is_admin\<close> only the literal \<open>1\<close> or its default \<open>0\<close>.
  \<open>created_at\<close> is the second at which the row was inserted (\<open>CURRENT_TIMESTAMP\<close>,
  whose text form orders as time does).
\<close>

record user =
  u_id :: int
  u_name :: "string option"
  u_email :: "string option"
  u_password :: string
  u_is_admin :: int
  u_created_at :: nat

record product =
  p_id :: int
  p_name :: string
  p_slug :: "string option"
  p_description :: "string option"
  p_price :: "real option"
  p_rating :: real
  p_reviews :: int
  p_colors :: "string option"
  p_images :: "string option"
  p_category :: "string option"
  p_age_group :: "string option"
  p_created_at :: nat

record wishlist =
  w_id :: int
  w_user_id :: "int option"
  w_product_id :: "int option"
  w_created_at :: nat

text \<open>
  The state of the database file: the rows of each table in insertion order and, for
  \<open>AUTOINCREMENT\<close>, the largest row id each table has ever used.
\<close>

record database =
  users :: "user list"
  products :: "product list"
  wishlists :: "wishlist list"
  seq_users :: int
  seq_products :: int
  seq_wishlists :: int

text \<open>
  What the SQLite binding stores for a JavaScript value bound to a \<open>?\<close> of a TEXT,
  INTEGER or REAL column, which is also what the column is compared with in a
  \<open>WHERE col = ?\<close>. \<open>null\<close> and \<open>undefined\<close> are NULL, a string is itself in a TEXT
  column, an integral number is itself in an INTEGER column, any number is itself in a
  REAL column, and every array or object is bound as the one text \<open>[object Object]\<close>;
  the remaining conversions are the environment's.
\<close>

fun bind_text :: "env \<Rightarrow> jsval \<Rightarrow> string option" where
  "bind_text E JUndefined = None"
| "bind_text E JNull = None"
| "bind_text E (JStr s) = Some s"
| "bind_text E (JBool b) = Some (sql_text E (JBool b))"
| "bind_text E (JNum r) = Some (sql_text E (JNum r))"
| "bind_text E (JArr xs) = Some ''[object Object]''"
| "bind_text E (JObj kvs) = Some ''[object Object]''"

fun bind_int :: "env \<Rightarrow> jsval \<Rightarrow> int option" where
  "bind_int E JUndefined = None"
| "bind_int E JNull = None"
| "bind_int E (JBool b) = Some (if b then 1 else 0)"
| "bind_int E (JNum r) = (if r = of_int \<lfloor>r\<rfloor> then Some \<lfloor>r\<rfloor> else sql_int E (JNum r))"
| "bind_int E (JStr s) = sql_int E (JStr s)"
| "bind_int E (JArr xs) = sql_int E (JStr ''[object Object]'')"
| "bind_int E (JObj kvs) = sql_int E (JStr ''[object Object]'')"

fun bind_real :: "env \<Rightarrow> jsval \<Rightarrow> real option" where
  "bind_real E JUndefined = None"
| "bind_real E JNull = None"
| "bind_real E (JBool b) = Some (if b then 1 else 0)"
| "bind_real E (JNum r) = Some r"
| "bind_real E (JStr s) = sql_real E (JStr s)"
| "bind_real E (JArr xs) = sql_real E (JStr ''[object Object]'')"
| "bind_real E (JObj kvs) = sql_real E (JStr ''[object Object]'')"

text \<open>\<open>col = ?\<close> is true when neither side is NULL and the two are equal.\<close>

definition sql_eq :: "'a option \<Rightarrow> 'a option \<Rightarrow> bool" where
  "sql_eq a b = (a \<noteq> None \<and> a = b)"

text \<open>The next \<open>AUTOINCREMENT\<close> row id: one more than the largest id used so far.\<close>

definition next_id :: "int \<Rightarrow> int list \<Rightarrow> int" where
  "next_id seq ids = fold max ids seq + 1"

subsection \<open>SQLite's LIKE\<close>

text \<open>
  \<open>value LIKE pattern\<close> as SQLite evaluates it by default: \<open>%\<close> in the pattern matches
  any run of characters, \<open>_\<close> any one character, and every other character matches
  itself up to the case of the 26 ASCII letters. There is no escape character.

  A text is its UTF-8 bytes. SQLite reads one character as one byte, or as a lead byte
  (\<open>0xC0\<close> and above) together with the continuation bytes (\<open>0x80\<close> to \<open>0xBF\<close>) that
  follow it; \<open>rest_of_char c cs\<close> is what is left of \<open>c # cs\<close> after its first
  character.
\<close>

definition lower :: "char \<Rightarrow> char" where
  "lower c =
     (case map_of (zip ''ABCDEFGHIJKLMNOPQRSTUVWXYZ'' ''abcdefghijklmnopqrstuvwxyz'') c of
        None \<Rightarrow> c | Some d \<Rightarrow> d)"

definition continuation :: "char \<Rightarrow> bool" where
  "continuation c = (128 \<le> (of_char c :: nat) \<and> (of_char c :: nat) < 192)"

definition rest_of_char :: "char \<Rightarrow> string \<Rightarrow> string" where
  "rest_of_char c cs = (if 192 \<le> (of_char c :: nat) then dropWhile continuation cs else cs)"

function like_match :: "string \<Rightarrow> string \<Rightarrow> bool" where
  "like_match [] [] = True"
| "like_match [] (c # cs) = False"
| "like_match (p # ps) [] = (p = CHR ''%'' \<and> like_match ps [])"
| "like_match (p # ps) (c # cs) =
     (if p = CHR ''%'' then like_match ps (c # cs) \<or> like_match (p # ps) (rest_of_char c cs)
      else if p = CHR ''_'' then like_match ps (rest_of_char c cs)
      else lower p = lower c \<and> like_match ps cs)"
  by pat_completeness auto
termination
proof (relation "measure (\<lambda>(p, s). length p + length s)")
  show "wf (measure (\<lambda>(p, s). length p + length s))" by simp
next
  fix p :: char and ps
  show "((ps, []), p # ps, []) \<in> measure (\<lambda>(p, s). length p + length s)" by simp
next
  fix p c :: char and ps cs
  show "((ps, c # cs), p # ps, c # cs) \<in> measure (\<lambda>(p, s). length p + length s)" by simp
next
  fix p c :: char and ps cs
  have "length (rest_of_char c cs) \<le> length cs"
    by (simp add: rest_of_char_def length_dropWhile_le)
  then show "((p # ps, rest_of_char c cs), p # ps, c # cs)
               \<in> measure (\<lambda>(p, s). length p + length s)" by simp
next
  fix p c :: char and ps cs
  have "length (rest_of_char c cs) \<le> length cs"
    by (simp add: rest_of_char_def length_dropWhile_le)
  then show "((ps, rest_of_char c cs), p # ps, c # cs)
               \<in> measure (\<lambda>(p, s). length p + length s)" by simp
next
  fix p c :: char and ps cs
  show "((ps, cs), p # ps, c # cs) \<in> measure (\<lambda>(p, s). length p + length s)" by simp
qed

definition sql_like :: "string option \<Rightarrow> string option \<Rightarrow> bool" where
  "sql_like v pat = (case (v, pat) of (Some s, Some p) \<Rightarrow> like_match p s | _ \<Rightarrow> False)"

subsection \<open>Running the listing query\<close>

text \<open>
  \<open>allAsync(sql, params)\<close> for the statements \<open>build_query\<close> can produce: the engine
  reads the text, so the model does too. It accepts
  \<open>SELECT * FROM products [WHERE c AND ... AND c] ORDER BY o\<close> with each \<open>c\<close> one of
  the three conditions and \<open>o\<close> one of the four orders below, and fails (as the engine
  does on a syntax error) on every other text.
\<close>

datatype cond = CCategory | CAgeGroup | CSearch

datatype order_by = ByPriceAsc | ByPriceDesc | ByCreatedDesc | ByIdDesc

fun strip_prefix :: "string \<Rightarrow> string \<Rightarrow> string option" where
  "strip_prefix [] s = Some s"
| "strip_prefix (p # ps) [] = None"
| "strip_prefix (p # ps) (c # cs) = (if p = c then strip_prefix ps cs else None)"

definition parse_cond :: "string \<Rightarrow> (cond \<times> string) option" where
  "parse_cond s =
     (case strip_prefix ''category = ?'' s of Some r \<Rightarrow> Some (CCategory, r)
      | None \<Rightarrow>
     (case strip_prefix ''age_group = ?'' s of Some r \<Rightarrow> Some (CAgeGroup, r)
      | None \<Rightarrow>
     (case strip_prefix ''(name LIKE ? OR description LIKE ?)'' s of
        Some r \<Rightarrow> Some (CSearch, r)
      | None \<Rightarrow> None)))"

function parse_conds :: "string \<Rightarrow> (cond list \<times> string) option" where
  "parse_conds s =
     (case parse_cond s of None \<Rightarrow> None
      | Some (c, r) \<Rightarrow>
         (case strip_prefix '' AND '' r of None \<Rightarrow> Some ([c], r)
          | Some r' \<Rightarrow>
             (case parse_conds r' of None \<Rightarrow> None
              | Some (cs, r'') \<Rightarrow> Some (c # cs, r''))))"
  by pat_completeness auto
termination
proof (relation "measure length")
  show "wf (measure length)" by simp
next
  fix s :: string and x2 c r r'
  assume pc: "parse_cond s = Some x2" and x2: "(c, r) = x2"
    and sp: "strip_prefix '' AND '' r = Some r'"
  have len: "\<And>p t u. strip_prefix p t = Some u \<Longrightarrow> length t = length p + length u"
  proof -
    fix p t u show "strip_prefix p t = Some u \<Longrightarrow> length t = length p + length u"
      by (induction p t rule: strip_prefix.induct) (auto split: if_splits)
  qed
  from pc x2 have "length r \<le> length s"
    by (auto simp: parse_cond_def split: option.splits dest!: len)
  moreover from sp have "length r' < length r"
    by (auto dest!: len)
  ultimately show "(r', s) \<in> measure length" by simp
qed

definition parse_order :: "string \<Rightarrow> order_by option" where
  "parse_order s =
     (if s = '' ORDER BY price ASC'' then Some ByPriceAsc
      else if s = '' ORDER BY price DESC'' then Some ByPriceDesc
      else if s = '' ORDER BY created_at DESC'' then Some ByCreatedDesc
      else if s = '' ORDER BY id DESC'' then Some ByIdDesc
      else None)"

definition parse_select :: "string \<Rightarrow> (cond list \<times> order_by) option" where
  "parse_select sql =
     (case strip_prefix ''SELECT * FROM products'' sql of None \<Rightarrow> None
      | Some r \<Rightarrow>
         (case strip_prefix '' WHERE '' r of
            None \<Rightarrow> map_option (\<lambda>ob. ([], ob)) (parse_order r)
          | Some r' \<Rightarrow>
             (case parse_conds r' of None \<Rightarrow> None
              | Some (cs, r'') \<Rightarrow> map_option (\<lambda>ob. (cs, ob)) (parse_order r''))))"

text \<open>
  The \<open>?\<close> placeholders take the parameters from left to right. A placeholder with no
  parameter left stays unbound, which is NULL; a parameter with no placeholder left is
  an error of the engine (\<open>SQLITE_RANGE\<close>).
\<close>

definition next_param :: "jsval list \<Rightarrow> jsval" where
  "next_param ps = (case ps of [] \<Rightarrow> JUndefined | v # vs \<Rightarrow> v)"

fun eval_conds :: "env \<Rightarrow> cond list \<Rightarrow> jsval list \<Rightarrow> (product \<Rightarrow> bool) option" where
  "eval_conds E [] ps = (if ps = [] then Some (\<lambda>r. True) else None)"
| "eval_conds E (CCategory # cs) ps =
     map_option (\<lambda>keep r. sql_eq (p_category r) (bind_text E (next_param ps)) \<and> keep r)
       (eval_conds E cs (tl ps))"
| "eval_conds E (CAgeGroup # cs) ps =
     map_option (\<lambda>keep r. sql_eq (p_age_group r) (bind_text E (next_param ps)) \<and> keep r)
       (eval_conds E cs (tl ps))"
| "eval_conds E (CSearch # cs) ps =
     map_option
       (\<lambda>keep r. (sql_like (Some (p_name r)) (bind_text E (next_param ps))
                   \<or> sql_like (p_description r) (bind_text E (next_param (tl ps))))
                  \<and> keep r)
       (eval_conds E cs (tl (tl ps)))"

text \<open>
  \<open>ORDER BY\<close>: the rows are sorted by the column, ascending or descending, and rows
  that tie keep the order in which the scan delivered them, in both directions. NULL
  orders before every number, which is the order of \<open>real option\<close>. The scan of the
  table delivers the rows by ascending row id.
\<close>

fun order_rows :: "order_by \<Rightarrow> product list \<Rightarrow> product list" where
  "order_rows ByPriceAsc rows = sort_key p_price rows"
| "order_rows ByPriceDesc rows = rev (sort_key p_price (rev rows))"
| "order_rows ByCreatedDesc rows = rev (sort_key p_created_at (rev rows))"
| "order_rows ByIdDesc rows = rev (sort_key p_id (rev rows))"

definition allAsync_products ::
    "env \<Rightarrow> database \<Rightarrow> string \<Rightarrow> jsval list \<Rightarrow> product list option" where
  "allAsync_products E db sql params =
     (case parse_select sql of None \<Rightarrow> None
      | Some (cs, ob) \<Rightarrow>
         (case eval_conds E cs params of None \<Rightarrow> None
          | Some keep \<Rightarrow>
              Some (order_rows ob (filter keep (sort_key p_id (products db))))))"

section \<open>Requests and responses\<close>

text \<open>
  What a handler reads of a request: the \<open>Authorization\<close> header, the JSON body, the
  parsed query string, the path parameters, \<open>req.user\<close> (set by \<open>authMiddleware\<close>),
  and the two things the libraries draw from the outside world, the clock and the salt.
\<close>

record request =
  r_authorization :: "string option"
  r_body :: "(string \<times> jsval) list"
  r_query :: "(string \<times> jsval) list"
  r_params :: "(string \<times> jsval) list"
  r_user :: "claims option"
  r_now :: nat
  r_salt :: nat

text \<open>
  A row of the product listing: the columns of the row, with \<open>images\<close> and \<open>colors\<close>
  replaced by their decoded values.
\<close>

record listed =
  l_row :: product
  l_images :: jsval
  l_colors :: jsval

record wish_item =
  wi_id :: int
  wi_product_id :: "int option"
  wi_name :: string
  wi_price :: "real option"
  wi_images :: jsval

text \<open>The columns \<open>/api/me\<close> selects: every column of a user but the password.\<close>

record profile =
  pr_id :: int
  pr_name :: "string option"
  pr_email :: "string option"
  pr_is_admin :: int
  pr_created_at :: nat

datatype payload =
    Message string
  | Token string
  | UserInfo "profile option"
  | ProductList "listed list"
  | ProductItem listed
  | WishlistItems "wish_item list"
  | InsertedId int
  | Success
  | Seeded

text \<open>
  \<open>Json st p\<close> is \<open>res.status(st).json(p)\<close> (status 200 when the code sets none).
  \<open>Unhandled\<close> is a handler that threw outside any \<open>try\<close>: no response is sent.
\<close>

datatype response = Json nat payload | Unhandled

section \<open>The product listing\<close>

text \<open>\<open>r.images ? JSON.parse(r.images) : []\<close>: NULL and the empty text are falsy.\<close>

definition decode_column :: "env \<Rightarrow> string option \<Rightarrow> jsval option" where
  "decode_column E col =
     (case col of None \<Rightarrow> Some (JArr [])
      | Some s \<Rightarrow> if s = [] then Some (JArr []) else JSON_parse E s)"

definition parse_row :: "env \<Rightarrow> product \<Rightarrow> listed option" where
  "parse_row E r =
     (case decode_column E (p_images r) of None \<Rightarrow> None
      | Some im \<Rightarrow>
         (case decode_column E (p_colors r) of None \<Rightarrow> None
          | Some co \<Rightarrow> Some \<lparr>l_row = r, l_images = im, l_colors = co\<rparr>))"

text \<open>
  \<open>app.get('/api/products')\<close>: an error of the engine or of \<open>JSON.parse\<close> inside the
  \<open>try\<close> is caught and answered with 500.
\<close>

definition list_products :: "env \<Rightarrow> database \<Rightarrow> request \<Rightarrow> response \<times> database" where
  "list_products E db req =
     (let (sql, params) = build_query E (r_query req)
      in case allAsync_products E db sql params of
           None \<Rightarrow> (Json 500 (Message ''Server error''), db)
         | Some rows \<Rightarrow>
            (case those (map (parse_row E) rows) of
               None \<Rightarrow> (Json 500 (Message ''Server error''), db)
             | Some parsed \<Rightarrow> (Json 200 (ProductList parsed), db)))"

section \<open>Middleware\<close>

text \<open>
  A middleware either answers the request itself (\<open>Inl\<close>: \<open>next\<close> is not called and
  nothing after it runs) or calls \<open>next()\<close> with the request it may have extended
  (\<open>Inr\<close>). \<open>serve\<close> is Express running the middlewares of a route in the order they
  were registered and then the route's handler.
\<close>

type_synonym middleware = "env \<Rightarrow> request \<Rightarrow> response + request"

type_synonym handler = "env \<Rightarrow> database \<Rightarrow> request \<Rightarrow> response \<times> database"

fun run_middlewares :: "env \<Rightarrow> middleware list \<Rightarrow> request \<Rightarrow> response + request" where
  "run_middlewares E [] req = Inr req"
| "run_middlewares E (m # ms) req =
     (case m E req of Inl resp \<Rightarrow> Inl resp | Inr req' \<Rightarrow> run_middlewares E ms req')"

definition serve ::
    "env \<Rightarrow> middleware list \<Rightarrow> handler \<Rightarrow> database \<Rightarrow> request \<Rightarrow> response \<times> database" where
  "serve E ms h db req =
     (case run_middlewares E ms req of
        Inl resp \<Rightarrow> (resp, db)
      | Inr req' \<Rightarrow> h E db req')"

text \<open>\<open>String.prototype.startsWith\<close> and \<open>split\<close> on a one-character separator.\<close>

definition starts_with :: "string \<Rightarrow> string \<Rightarrow> bool" where
  "starts_with p s = (strip_prefix p s \<noteq> None)"

fun split_on :: "char \<Rightarrow> string \<Rightarrow> string list" where
  "split_on d [] = [[]]"
| "split_on d (c # cs) =
     (if c = d then [] # split_on d cs
      else (case split_on d cs of [] \<Rightarrow> [[c]] | x # xs \<Rightarrow> (c # x) # xs))"

text \<open>\<open>xs[i]\<close>, \<open>undefined\<close> (here \<open>None\<close>) out of range.\<close>

definition index :: "'a list \<Rightarrow> nat \<Rightarrow> 'a option" where
  "index xs i = (if i < length xs then Some (xs ! i) else None)"

text \<open>
  \<open>authMiddleware\<close> (server.js, lines 42 to 53). \<open>jwt.verify\<close> throws on a token that
  is not a string, so an \<open>undefined\<close> token is answered like any other invalid one.
\<close>

definition authMiddleware :: middleware where
  "authMiddleware E req =
     (case r_authorization req of
        None \<Rightarrow> Inl (Json 401 (Message ''Unauthorized''))
      | Some auth \<Rightarrow>
          if auth = [] \<or> \<not> starts_with ''Bearer '' auth
          then Inl (Json 401 (Message ''Unauthorized''))
          else (case index (split_on CHR '' '' auth) 1 of
                  None \<Rightarrow> Inl (Json 401 (Message ''Invalid token''))
                | Some token \<Rightarrow>
                   (case jwt_verify E token (JWT_SECRET E) (r_now req) of
                      None \<Rightarrow> Inl (Json 401 (Message ''Invalid token''))
                    | Some payload \<Rightarrow> Inr (req\<lparr>r_user := Some payload\<rparr>))))"

text \<open>\<open>adminMiddleware\<close> (lines 55 to 58): the flag \<open>0\<close> is the falsy one.\<close>

definition adminMiddleware :: middleware where
  "adminMiddleware E req =
     (case r_user req of
        None \<Rightarrow> Inl (Json 403 (Message ''Admin only''))
      | Some u \<Rightarrow>
          if c_is_admin u = 0 then Inl (Json 403 (Message ''Admin only''))
          else Inr req)"

section \<open>Users\<close>

text \<open>\<open>getAsync('SELECT ... FROM users WHERE email = ?', [email])\<close>: the row, if any.\<close>

definition user_by_email :: "env \<Rightarrow> database \<Rightarrow> jsval \<Rightarrow> user option" where
  "user_by_email E db email =
     find (\<lambda>u. sql_eq (u_email u) (bind_text E email)) (users db)"

text \<open>
  \<open>INSERT INTO users (name, email, password[, is_admin]) VALUES (...)\<close>. The insert
  fails on the \<open>UNIQUE\<close> constraint of \<open>email\<close> (\<open>None\<close>); otherwise the result carries
  \<open>lastID\<close>.
\<close>

definition insert_user ::
    "database \<Rightarrow> string option \<Rightarrow> string option \<Rightarrow> string \<Rightarrow> int \<Rightarrow> nat
       \<Rightarrow> (int \<times> database) option" where
  "insert_user db name email password is_admin now =
     (if \<exists>u \<in> set (users db). sql_eq (u_email u) email then None
      else let lastID = next_id (seq_users db) (map u_id (users db))
           in Some (lastID,
                    db\<lparr>users := users db @
                          [\<lparr>u_id = lastID, u_name = name, u_email = email,
                            u_password = password, u_is_admin = is_admin,
                            u_created_at = now\<rparr>],
                       seq_users := lastID\<rparr>))"

text \<open>
  The start-up callback of \<open>db.exec\<close> (lines 29 to 37): the administrator is created
  when no user has the configured email. \<open>None\<close> is a library call that rejected.
\<close>

definition bootstrap_admin ::
    "env \<Rightarrow> database \<Rightarrow> string \<Rightarrow> string \<Rightarrow> nat \<Rightarrow> nat \<Rightarrow> database option" where
  "bootstrap_admin E db adminEmail adminPassword now salt =
     (case user_by_email E db (JStr adminEmail) of
        Some u \<Rightarrow> Some db
      | None \<Rightarrow>
         (case bcrypt_hash E (JStr adminPassword) 10 salt of
            None \<Rightarrow> None
          | Some hash \<Rightarrow>
              map_option snd
                (insert_user db (Some ''Admin'') (bind_text E (JStr adminEmail)) hash 1 now)))"

text \<open>\<open>app.post('/api/register')\<close> (lines 61 to 76).\<close>

definition register :: handler where
  "register E db req =
     (let name = get_prop (r_body req) ''name'';
          email = get_prop (r_body req) ''email'';
          password = get_prop (r_body req) ''password''
      in if \<not> truthy email \<or> \<not> truthy password
         then (Json 400 (Message ''Email and password required''), db)
         else (case user_by_email E db email of
                 Some exists \<Rightarrow> (Json 400 (Message ''Email already registered''), db)
               | None \<Rightarrow>
                  (case bcrypt_hash E password 10 (r_salt req) of
                     None \<Rightarrow> (Json 500 (Message ''Server error''), db)
                   | Some hash \<Rightarrow>
                      (case insert_user db (bind_text E (js_or name (JStr [])))
                              (bind_text E email) hash 0 (r_now req) of
                         None \<Rightarrow> (Json 500 (Message ''Server error''), db)
                       | Some (userId, db') \<Rightarrow>
                          (let token = jwt_sign E
                                 \<lparr>c_id = userId, c_email = email, c_is_admin = 0\<rparr>
                                 (JWT_SECRET E) (r_now req)
                           in (Json 200 (Token token), db'))))))"




text \<open>A TEXT column read back into JavaScript.\<close>

definition js_text :: "string option \<Rightarrow> jsval" where
  "js_text col = (case col of None \<Rightarrow> JNull | Some s \<Rightarrow> JStr s)"

text \<open>\<open>app.post('/api/login')\<close> (lines 78 to 91).\<close>

definition login :: handler where
  "login E db req =
     (let email = get_prop (r_body req) ''email'';
          password = get_prop (r_body req) ''password''
      in case user_by_email E db email of
           None \<Rightarrow> (Json 400 (Message ''Invalid email/password''), db)
         | Some user \<Rightarrow>
            (case bcrypt_compare E password (u_password user) of
               None \<Rightarrow> (Json 500 (Message ''Server error''), db)
             | Some ok \<Rightarrow>
                 if \<not> ok then (Json 400 (Message ''Invalid email/password''), db)
                 else (let token = jwt_sign E
                             \<lparr>c_id = u_id user, c_email = js_text (u_email user),
                              c_is_admin = u_is_admin user\<rparr>
                             (JWT_SECRET E) (r_now req)
                       in (Json 200 (Token token), db))))"

text \<open>
  \<open>app.get('/api/me')\<close> (lines 93 to 96). The handler has no \<open>try\<close>: reading
  \<open>req.user.id\<close> with no \<open>req.user\<close> throws, and nothing answers.
\<close>

definition me :: handler where
  "me E db req =
     (case r_user req of
        None \<Rightarrow> (Unhandled, db)
      | Some u \<Rightarrow>
          (Json 200
             (UserInfo
                (map_option
                   (\<lambda>r. \<lparr>pr_id = u_id r, pr_name = u_name r, pr_email = u_email r,
                         pr_is_admin = u_is_admin r, pr_created_at = u_created_at r\<rparr>)
                   (find (\<lambda>r. u_id r = c_id u) (users db)))), db))"

section \<open>Products\<close>

text \<open>
  \<open>app.get('/api/products/:id')\<close> (lines 128 to 135); it has no \<open>try\<close>. For
  \<open>WHERE id = ? OR slug = ?\<close> the engine looks the id up first and the slug second,
  and \<open>getAsync\<close> takes the first row found.
\<close>

definition get_product :: handler where
  "get_product E db req =
     (let id' = get_prop (r_params req) ''id''
      in case (case find (\<lambda>p. sql_eq (Some (p_id p)) (bind_int E id')) (products db) of
                 Some row \<Rightarrow> Some row
               | None \<Rightarrow> find (\<lambda>p. sql_eq (p_slug p) (bind_text E id')) (products db)) of
           None \<Rightarrow> (Json 404 (Message ''Not found''), db)
         | Some row \<Rightarrow>
            (case parse_row E row of
               None \<Rightarrow> (Unhandled, db)
             | Some parsed \<Rightarrow> (Json 200 (ProductItem parsed), db)))"

text \<open>
  \<open>INSERT INTO products (name, slug, description, price, colors, images, category,
  age_group) VALUES (?,?,?,?,?,?,?,?)\<close>: it fails on \<open>name NOT NULL\<close> and on
  \<open>slug UNIQUE\<close>; \<open>rating\<close> and \<open>reviews\<close> take their defaults.
\<close>

definition insert_product ::
    "database \<Rightarrow> string option \<Rightarrow> string option \<Rightarrow> string option \<Rightarrow> real option
       \<Rightarrow> string option \<Rightarrow> string option \<Rightarrow> string option \<Rightarrow> string option \<Rightarrow> nat
       \<Rightarrow> (int \<times> database) option" where
  "insert_product db name slug description price colors images category age_group now =
     (case name of
        None \<Rightarrow> None
      | Some n \<Rightarrow>
          if \<exists>p \<in> set (products db). sql_eq (p_slug p) slug then None
          else let lastID = next_id (seq_products db) (map p_id (products db))
               in Some (lastID,
                        db\<lparr>products := products db @
                              [\<lparr>p_id = lastID, p_name = n, p_slug = slug,
                                p_description = description, p_price = price,
                                p_rating = 0, p_reviews = 0, p_colors = colors,
                                p_images = images, p_category = category,
                                p_age_group = age_group, p_created_at = now\<rparr>],
                           seq_products := lastID\<rparr>))"

text \<open>\<open>app.post('/api/admin/products')\<close> (lines 138 to 148), after its middlewares.\<close>

definition create_product :: handler where
  "create_product E db req =
     (let name = get_prop (r_body req) ''name'';
          slug = get_prop (r_body req) ''slug'';
          description = get_prop (r_body req) ''description'';
          price = get_prop (r_body req) ''price'';
          colors = get_prop (r_body req) ''colors'';
          images = get_prop (r_body req) ''images'';
          category = get_prop (r_body req) ''category'';
          age_group = get_prop (r_body req) ''age_group''
      in case insert_product db (bind_text E name) (bind_text E slug)
                (bind_text E description) (bind_real E price)
                (Some (JSON_stringify E (js_or colors (JArr []))))
                (Some (JSON_stringify E (js_or images (JArr []))))
                (bind_text E (js_or category (JStr [])))
                (bind_text E (js_or age_group (JStr []))) (r_now req) of
           None \<Rightarrow> (Json 500 (Message ''Server error''), db)
         | Some (lastID, db') \<Rightarrow> (Json 200 (InsertedId lastID), db'))"

text \<open>
  \<open>UPDATE products SET ... WHERE id=?\<close>: with no row of that id nothing happens; with
  one, the two constraints are checked as for an insert, \<open>slug\<close> against the other rows.
\<close>

definition update_product_row ::
    "database \<Rightarrow> int option \<Rightarrow> string option \<Rightarrow> string option \<Rightarrow> string option
       \<Rightarrow> real option \<Rightarrow> string option \<Rightarrow> string option \<Rightarrow> string option
       \<Rightarrow> string option \<Rightarrow> database option" where
  "update_product_row db id' name slug description price colors images category age_group =
     (if \<not> (\<exists>p \<in> set (products db). sql_eq (Some (p_id p)) id') then Some db
      else case name of
             None \<Rightarrow> None
           | Some n \<Rightarrow>
               if \<exists>p \<in> set (products db).
                    \<not> sql_eq (Some (p_id p)) id' \<and> sql_eq (p_slug p) slug
               then None
               else Some (db\<lparr>products :=
                            map (\<lambda>p. if sql_eq (Some (p_id p)) id'
                                      then p\<lparr>p_name := n, p_slug := slug,
                                             p_description := description,
                                             p_price := price, p_colors := colors,
                                             p_images := images, p_category := category,
                                             p_age_group := age_group\<rparr>
                                      else p)
                              (products db)\<rparr>))"

text \<open>\<open>app.put('/api/admin/products/:id')\<close> (lines 150 to 160).\<close>

definition update_product :: handler where
  "update_product E db req =
     (let id' = get_prop (r_params req) ''id'';
          name = get_prop (r_body req) ''name'';
          slug = get_prop (r_body req) ''slug'';
          description = get_prop (r_body req) ''description'';
          price = get_prop (r_body req) ''price'';
          colors = get_prop (r_body req) ''colors'';
          images = get_prop (r_body req) ''images'';
          category = get_prop (r_body req) ''category'';
          age_group = get_prop (r_body req) ''age_group''
      in case update_product_row db (bind_int E id') (bind_text E name) (bind_text E slug)
                (bind_text E description) (bind_real E price)
                (Some (JSON_stringify E (js_or colors (JArr []))))
                (Some (JSON_stringify E (js_or images (JArr []))))
                (bind_text E (js_or category (JStr [])))
                (bind_text E (js_or age_group (JStr []))) of
           None \<Rightarrow> (Json 500 (Message ''Server error''), db)
         | Some db' \<Rightarrow> (Json 200 Success, db'))"

text \<open>\<open>app.delete('/api/admin/products/:id')\<close> (lines 162 to 171).\<close>

definition delete_product :: handler where
  "delete_product E db req =
     (let id' = get_prop (r_params req) ''id''
      in (Json 200 Success,
          db\<lparr>products :=
               filter (\<lambda>p. \<not> sql_eq (Some (p_id p)) (bind_int E id')) (products db)\<rparr>))"

text \<open>
  \<open>app.post('/api/admin/seed-demo')\<close> (lines 198 to 230): the two demo products,
  each inserted with \<open>INSERT OR IGNORE\<close>, which skips a row that breaks a constraint.
  The row id of a skipped row has been drawn by then: the \<open>AUTOINCREMENT\<close> counter
  advances all the same (after an \<open>INSERT\<close> that fails it does not).
\<close>

definition demo_products :: "(string \<times> jsval) list list" where
  "demo_products =
     [[(''name'', JStr ''Everest Adventure Hoodie''),
       (''slug'', JStr ''everest-adventure-hoodie''),
       (''description'',
          JStr ''Cozy hoodie built for play, with reinforced seams and soft fleece.''),
       (''price'', JNum 45),
       (''colors'', JArr [JObj [(''name'', JStr ''Navy''), (''hex'', JStr ''#1f3b6f'')],
                          JObj [(''name'', JStr ''Heather Grey''), (''hex'', JStr ''#bdbdbd'')],
                          JObj [(''name'', JStr ''Forest Green''), (''hex'', JStr ''#2b6b4a'')]]),
       (''images'', JArr [JStr
          ''https://images.unsplash.com/photo-1541099649105-f69ad21f3246?w=1000&q=80'']),
       (''category'', JStr ''Hoodies & Sweatshirts''),
       (''age_group'', JStr ''Big Kid'')],
      [(''name'', JStr ''Cosmic Explorer Glow-in-the-Dark Tee''),
       (''slug'', JStr ''cosmic-explorer-tee''),
       (''description'', JStr ''Glow-in-the-dark organic tee for little astronauts.''),
       (''price'', JNum 28),
       (''colors'', JArr [JObj [(''name'', JStr ''Midnight Blue''), (''hex'', JStr ''#0b2545'')],
                          JObj [(''name'', JStr ''Charcoal Grey''), (''hex'', JStr ''#4b4b4b'')]]),
       (''images'', JArr [JStr
          ''https://images.unsplash.com/photo-1541099649105-f69ad21f3246?w=900&q=80'']),
       (''category'', JStr ''Graphic Tees''),
       (''age_group'', JStr ''Little Kid'')]]"

definition insert_or_ignore_product ::
    "env \<Rightarrow> nat \<Rightarrow> (string \<times> jsval) list \<Rightarrow> database \<Rightarrow> database" where
  "insert_or_ignore_product E now p db =
     (case insert_product db (bind_text E (get_prop p ''name''))
             (bind_text E (get_prop p ''slug''))
             (bind_text E (get_prop p ''description''))
             (bind_real E (get_prop p ''price''))
             (Some (JSON_stringify E (get_prop p ''colors'')))
             (Some (JSON_stringify E (get_prop p ''images'')))
             (bind_text E (get_prop p ''category''))
             (bind_text E (get_prop p ''age_group'')) now of
        None \<Rightarrow> db\<lparr>seq_products := next_id (seq_products db) (map p_id (products db))\<rparr>
      | Some (lastID, db') \<Rightarrow> db')"

definition seed_demo :: handler where
  "seed_demo E db req =
     (Json 200 Seeded, fold (insert_or_ignore_product E (r_now req)) demo_products db)"

section \<open>Wishlist\<close>

text \<open>
  \<open>SELECT w.id, w.product_id, p.name, p.price, p.images FROM wishlists w JOIN products
  p ON p.id = w.product_id WHERE w.user_id = ?\<close>. The engine finds the rows of the user
  through the index of \<open>UNIQUE(user_id, product_id)\<close>, so they come by ascending
  \<open>product_id\<close>, each with the product of that id.
\<close>

definition wishlist_rows :: "database \<Rightarrow> int option \<Rightarrow> (wishlist \<times> product) list" where
  "wishlist_rows db uid =
     [(w, p). w \<leftarrow> sort_key w_product_id
                      (filter (\<lambda>w. sql_eq (w_user_id w) uid) (wishlists db)),
              p \<leftarrow> products db, sql_eq (Some (p_id p)) (w_product_id w)]"

definition wish_item_of :: "env \<Rightarrow> wishlist \<times> product \<Rightarrow> wish_item option" where
  "wish_item_of E r =
     (case decode_column E (p_images (snd r)) of
        None \<Rightarrow> None
      | Some im \<Rightarrow>
          Some \<lparr>wi_id = w_id (fst r), wi_product_id = w_product_id (fst r),
                wi_name = p_name (snd r), wi_price = p_price (snd r), wi_images = im\<rparr>)"

text \<open>\<open>app.get('/api/wishlist')\<close> (lines 174 to 178); it has no \<open>try\<close>.\<close>

definition get_wishlist :: handler where
  "get_wishlist E db req =
     (case r_user req of
        None \<Rightarrow> (Unhandled, db)
      | Some u \<Rightarrow>
         (case those (map (wish_item_of E) (wishlist_rows db (Some (c_id u)))) of
            None \<Rightarrow> (Unhandled, db)
          | Some parsed \<Rightarrow> (Json 200 (WishlistItems parsed), db)))"

text \<open>
  \<open>INSERT OR IGNORE INTO wishlists (user_id, product_id) VALUES (?,?)\<close>: the row is
  skipped when it breaks \<open>UNIQUE(user_id, product_id)\<close>, which a row with a NULL in
  either column never does. Skipped or not, the row id has been drawn and the
  \<open>AUTOINCREMENT\<close> counter advances.
\<close>

definition insert_or_ignore_wishlist ::
    "database \<Rightarrow> int option \<Rightarrow> int option \<Rightarrow> nat \<Rightarrow> database" where
  "insert_or_ignore_wishlist db user_id product_id now =
     (let lastID = next_id (seq_wishlists db) (map w_id (wishlists db))
      in if \<exists>w \<in> set (wishlists db).
              sql_eq (w_user_id w) user_id \<and> sql_eq (w_product_id w) product_id
         then db\<lparr>seq_wishlists := lastID\<rparr>
         else db\<lparr>wishlists := wishlists db @
                   [\<lparr>w_id = lastID, w_user_id = user_id, w_product_id = product_id,
                     w_created_at = now\<rparr>],
                 seq_wishlists := lastID\<rparr>)"

text \<open>
  \<open>app.post('/api/wishlist')\<close> (lines 180 to 189): reading \<open>req.user.id\<close> is inside
  the \<open>try\<close>.
\<close>

definition add_wishlist :: handler where
  "add_wishlist E db req =
     (let product_id = get_prop (r_body req) ''product_id''
      in case r_user req of
           None \<Rightarrow> (Json 500 (Message ''Server error''), db)
         | Some u \<Rightarrow>
             (Json 200 Success,
              insert_or_ignore_wishlist db (Some (c_id u)) (bind_int E product_id)
                (r_now req)))"

text \<open>\<open>app.delete('/api/wishlist/:product_id')\<close> (lines 191 to 195); no \<open>try\<close>.\<close>

definition remove_wishlist :: handler where
  "remove_wishlist E db req =
     (let pid = get_prop (r_params req) ''product_id''
      in case r_user req of
           None \<Rightarrow> (Unhandled, db)
         | Some u \<Rightarrow>
             (Json 200 Success,
              db\<lparr>wishlists :=
                   filter (\<lambda>w. \<not> (sql_eq (w_user_id w) (Some (c_id u))
                                    \<and> sql_eq (w_product_id w) (bind_int E pid)))
                     (wishlists db)\<rparr>))"

section \<open>The routes\<close>

text \<open>Each route with the middlewares and the handler it is registered with.\<close>

datatype route =
    PostRegister
  | PostLogin
  | GetMe
  | GetProducts
  | GetProduct
  | PostAdminProducts
  | PutAdminProducts
  | DeleteAdminProducts
  | GetWishlist
  | PostWishlist
  | DeleteWishlist
  | PostAdminSeedDemo

fun route_middlewares :: "route \<Rightarrow> middleware list" where
  "route_middlewares PostRegister = []"
| "route_middlewares PostLogin = []"
| "route_middlewares GetMe = [authMiddleware]"
| "route_middlewares GetProducts = []"
| "route_middlewares GetProduct = []"
| "route_middlewares PostAdminProducts = [authMiddleware, adminMiddleware]"
| "route_middlewares PutAdminProducts = [authMiddleware, adminMiddleware]"
| "route_middlewares DeleteAdminProducts = [authMiddleware, adminMiddleware]"
| "route_middlewares GetWishlist = [authMiddleware]"
| "route_middlewares PostWishlist = [authMiddleware]"
| "route_middlewares DeleteWishlist = [authMiddleware]"
| "route_middlewares PostAdminSeedDemo = [authMiddleware, adminMiddleware]"

fun route_handler :: "route \<Rightarrow> handler" where
  "route_handler PostRegister = register"
| "route_handler PostLogin = login"
| "route_handler GetMe = me"
| "route_handler GetProducts = list_products"
| "route_handler GetProduct = get_product"
| "route_handler PostAdminProducts = create_product"
| "route_handler PutAdminProducts = update_product"
| "route_handler DeleteAdminProducts = delete_product"
| "route_handler GetWishlist = get_wishlist"
| "route_handler PostWishlist = add_wishlist"
| "route_handler DeleteWishlist = remove_wishlist"
| "route_handler PostAdminSeedDemo = seed_demo"

definition handle :: "env \<Rightarrow> database \<Rightarrow> route \<Rightarrow> request \<Rightarrow> response \<times> database" where
  "handle E db rt req = serve E (route_middlewares rt) (route_handler rt) db req"

section \<open>What the properties are stated with\<close>

text \<open>
  The token an \<open>Authorization\<close> header carries: what follows \<open>Bearer\<close> and the space,
  up to the next space.
\<close>

definition bearer_token :: "string \<Rightarrow> string" where
  "bearer_token auth = takeWhile (\<lambda>c. c \<noteq> CHR '' '') (drop 7 auth)"

text \<open>The routes registered with \<open>authMiddleware\<close>, and those gated for administrators.\<close>

definition protected :: "route \<Rightarrow> bool" where
  "protected rt =
     (rt = GetMe \<or> rt = PostAdminProducts \<or> rt = PutAdminProducts
      \<or> rt = DeleteAdminProducts \<or> rt = GetWishlist \<or> rt = PostWishlist
      \<or> rt = DeleteWishlist \<or> rt = PostAdminSeedDemo)"

definition admin_gated :: "route \<Rightarrow> bool" where
  "admin_gated rt =
     (rt = PostAdminProducts \<or> rt = PutAdminProducts \<or> rt = DeleteAdminProducts
      \<or> rt = PostAdminSeedDemo)"

definition wishlist_route :: "route \<Rightarrow> bool" where
  "wishlist_route rt = (rt = GetWishlist \<or> rt = PostWishlist \<or> rt = DeleteWishlist)"

text \<open>
  A string contains another as a substring up to the case of ASCII letters: some
  position of the string starts with the other, letter for letter.
\<close>

fun ci_prefix :: "string \<Rightarrow> string \<Rightarrow> bool" where
  "ci_prefix [] s = True"
| "ci_prefix (q # qs) [] = False"
| "ci_prefix (q # qs) (c # cs) = (lower q = lower c \<and> ci_prefix qs cs)"

fun contains_ci :: "string \<Rightarrow> string \<Rightarrow> bool" where
  "contains_ci q [] = (q = [])"
| "contains_ci q (c # cs) = (ci_prefix q (c # cs) \<or> contains_ci q cs)"



text \<open>
  The condition the listing puts on a row, in the words of the specification: each
  filter that is given (and truthy) must hold, the others impose nothing. \<open>category\<close>
  and \<open>age_group\<close> are compared for equality with the bound value, \<open>q\<close> is searched
  in \<open>name\<close> or \<open>description\<close> with \<open>LIKE\<close> between two \<open>%\<close>.
\<close>

definition satisfies_filters :: "env \<Rightarrow> (string \<times> jsval) list \<Rightarrow> product \<Rightarrow> bool" where
  "satisfies_filters E query r =
     ((truthy (get_prop query ''category'')
         \<longrightarrow> p_category r = bind_text E (get_prop query ''category''))
      \<and> (truthy (get_prop query ''age_group'')
         \<longrightarrow> p_age_group r = bind_text E (get_prop query ''age_group''))
      \<and> (truthy (get_prop query ''q'')
         \<longrightarrow> like_match (''%'' @ js_String E (get_prop query ''q'') @ ''%'') (p_name r)
             \<or> (case p_description r of
                   None \<Rightarrow> False
                 | Some d \<Rightarrow>
                     like_match (''%'' @ js_String E (get_prop query ''q'') @ ''%'') d)))"

text \<open>The rows of a user in the wishlist table.\<close>

definition wishlist_of :: "int \<Rightarrow> database \<Rightarrow> wishlist list" where
  "wishlist_of uid db = filter (\<lambda>w. w_user_id w = Some uid) (wishlists db)"

definition wishlist_of_others :: "int \<Rightarrow> database \<Rightarrow> wishlist list" where
  "wishlist_of_others uid db = filter (\<lambda>w. w_user_id w \<noteq> Some uid) (wishlists db)"

definition wishlist_entries :: "int \<Rightarrow> int \<Rightarrow> database \<Rightarrow> wishlist list" where
  "wishlist_entries uid pid db =
     filter (\<lambda>w. w_user_id w = Some uid \<and> w_product_id w = Some pid) (wishlists db)"

text \<open>The rows of the user table with a given email.\<close>

definition users_with_email :: "string option \<Rightarrow> database \<Rightarrow> user list" where
  "users_with_email email db = filter (\<lambda>u. sql_eq (u_email u) email) (users db)"

text \<open>The order the listing asks for, given the value of \<open>sort\<close>.\<close>

definition listing_order :: "jsval \<Rightarrow> order_by" where
  "listing_order sort_v =
     (case sort_kind sort_v of
        PriceAsc \<Rightarrow> ByPriceAsc
      | PriceDesc \<Rightarrow> ByPriceDesc
      | Newest \<Rightarrow> ByCreatedDesc
      | DefaultOrder \<Rightarrow> ByIdDesc)"

text \<open>
  A request that is not authenticated: it has no \<open>Authorization\<close> header, or one that
  does not begin with \<open>Bearer\<close> and a space, or one whose token fails verification.
\<close>

definition unauthenticated :: "env \<Rightarrow> request \<Rightarrow> bool" where
  "unauthenticated E req =
     (case r_authorization req of
        None \<Rightarrow> True
      | Some auth \<Rightarrow>
          \<not> starts_with ''Bearer '' auth
          \<or> jwt_verify E (bearer_token auth) (JWT_SECRET E) (r_now req) = None)"

text \<open>A request that carries a token which verifies, with the claims it verifies to.\<close>

definition authenticated_as :: "env \<Rightarrow> request \<Rightarrow> claims \<Rightarrow> bool" where
  "authenticated_as E req c =
     (case r_authorization req of
        None \<Rightarrow> False
      | Some auth \<Rightarrow>
          starts_with ''Bearer '' auth
          \<and> jwt_verify E (bearer_token auth) (JWT_SECRET E) (r_now req) = Some c)"




section \<open>A sample installation\<close>

text \<open>
  A small environment and database on which the properties below are exercised. The
  token library knows three tokens, one per user; the hash of a password is the
  password behind a fixed prefix; both reject what the real libraries reject, data that
  is not a string. The texts \<open>1\<close> and \<open>2\<close> are read as integers.
\<close>

definition alice_claims :: claims where
  "alice_claims = \<lparr>c_id = 1, c_email = JStr ''alice@x.com'', c_is_admin = 0\<rparr>"

definition bob_claims :: claims where
  "bob_claims = \<lparr>c_id = 2, c_email = JStr ''bob@x.com'', c_is_admin = 0\<rparr>"

definition admin_claims :: claims where
  "admin_claims = \<lparr>c_id = 3, c_email = JStr ''admin@caprio.com'', c_is_admin = 1\<rparr>"

definition sample_env :: env where
  "sample_env =
     \<lparr>JWT_SECRET = ''dev_secret_change_me'',
      jwt_sign = (\<lambda>c secret now.
         if c_id c = 1 then ''tok.alice'' else if c_id c = 2 then ''tok.bob''
         else if c_id c = 3 then ''tok.admin'' else ''tok.new''),
      jwt_verify = (\<lambda>token secret now.
         if token = ''tok.alice'' then Some alice_claims
         else if token = ''tok.bob'' then Some bob_claims
         else if token = ''tok.admin'' then Some admin_claims
         else None),
      bcrypt_hash = (\<lambda>data rounds salt.
         case data of JStr s \<Rightarrow> Some (''$2b$'' @ s) | _ \<Rightarrow> None),
      bcrypt_compare = (\<lambda>data hash.
         case data of JStr s \<Rightarrow> Some (hash = ''$2b$'' @ s) | _ \<Rightarrow> None),
      JSON_parse = (\<lambda>s. if s = ''[]'' then Some (JArr []) else None),
      JSON_stringify = (\<lambda>v. ''[]''),
      num_string = (\<lambda>r. ''0''),
      sql_text = (\<lambda>v. ''0''),
      sql_int = (\<lambda>v. if v = JStr ''1'' then Some 1 else if v = JStr ''2'' then Some 2 else None),
      sql_real = (\<lambda>v. None)\<rparr>"

definition hoodie :: product where
  "hoodie =
     \<lparr>p_id = 1, p_name = ''Trail Hoodie'',
      p_slug = Some ''trail-hoodie'',
      p_description = Some ''Cozy fleece'', p_price = Some 45, p_rating = 0,
      p_reviews = 0, p_colors = Some ''[]'', p_images = Some ''[]'',
      p_category = Some ''Hoodies'', p_age_group = Some ''Big Kid'',
      p_created_at = 100\<rparr>"

definition tee :: product where
  "tee =
     \<lparr>p_id = 2, p_name = ''Cosmic Tee'', p_slug = Some ''cosmic-tee'',
      p_description = None, p_price = Some 28, p_rating = 0, p_reviews = 0,
      p_colors = None, p_images = Some [], p_category = Some ''Graphic Tees'',
      p_age_group = Some ''Little Kid'', p_created_at = 200\<rparr>"

definition sample_db :: database where
  "sample_db =
     \<lparr>users =
        [\<lparr>u_id = 1, u_name = Some ''Alice'', u_email = Some ''alice@x.com'',
          u_password = ''$2b$pw123456'', u_is_admin = 0, u_created_at = 10\<rparr>,
         \<lparr>u_id = 2, u_name = Some ''Bob'', u_email = Some ''bob@x.com'',
          u_password = ''$2b$hunter22'', u_is_admin = 0, u_created_at = 20\<rparr>,
         \<lparr>u_id = 3, u_name = Some ''Admin'', u_email = Some ''admin@caprio.com'',
          u_password = ''$2b$Admin123!'', u_is_admin = 1, u_created_at = 1\<rparr>],
      products = [hoodie, tee],
      wishlists =
        [\<lparr>w_id = 1, w_user_id = Some 2, w_product_id = Some 1, w_created_at = 300\<rparr>],
      seq_users = 3, seq_products = 2, seq_wishlists = 1\<rparr>"

text \<open>A request with nothing in it, to be filled in field by field.\<close>

definition request0 :: request where
  "request0 =
     \<lparr>r_authorization = None, r_body = [], r_query = [], r_params = [], r_user = None,
      r_now = 1000, r_salt = 7\<rparr>"

text \<open>A registration body that also asks to be an administrator.\<close>

definition carol :: "(string \<times> jsval) list" where
  "carol = [(''name'', JStr ''Carol''), (''email'', JStr ''carol@x.com''),
            (''password'', JStr ''pw123456''), (''is_admin'', JBool True)]"

text \<open>
  Two requests of Alice: one adds product 1 to her wishlist (and names Bob's id in its
  body), one removes product 1 from it.
\<close>

definition alice_adds :: request where
  "alice_adds = request0\<lparr>r_authorization := Some ''Bearer tok.alice'',
                        r_body := [(''product_id'', JNum 1), (''user_id'', JNum 2)]\<rparr>"

definition alice_removes :: request where
  "alice_removes = request0\<lparr>r_authorization := Some ''Bearer tok.alice'',
                           r_params := [(''product_id'', JStr ''1'')]\<rparr>"

section \<open>Verified properties\<close>

subsection \<open>The query text carries no value\<close>

lemma build_query_text:
  "fst (build_query E query) =
     ''SELECT * FROM products'' @
     (let cs = (if truthy (get_prop query ''category'') then [''category = ?''] else []) @
               (if truthy (get_prop query ''age_group'') then [''age_group = ?''] else []) @
               (if truthy (get_prop query ''q'')
                then [''(name LIKE ? OR description LIKE ?)''] else [])
      in if cs = [] then [] else '' WHERE '' @ join '' AND '' cs) @
     (case sort_kind (get_prop query ''sort'') of
        PriceAsc \<Rightarrow> '' ORDER BY price ASC''
      | PriceDesc \<Rightarrow> '' ORDER BY price DESC''
      | Newest \<Rightarrow> '' ORDER BY created_at DESC''
      | DefaultOrder \<Rightarrow> '' ORDER BY id DESC'')"
  by (simp add: build_query_def sort_kind_def Let_def)

lemma build_query_params:
  "snd (build_query E query) =
     (if truthy (get_prop query ''category'') then [get_prop query ''category''] else []) @
     (if truthy (get_prop query ''age_group'') then [get_prop query ''age_group''] else []) @
     (if truthy (get_prop query ''q'')
      then [JStr (''%'' @ js_String E (get_prop query ''q'') @ ''%''),
            JStr (''%'' @ js_String E (get_prop query ''q'') @ ''%'')]
      else [])"
  by (simp add: build_query_def Let_def)

text \<open>
  Claim C1. The SQL text of the product listing depends only on which of \<open>category\<close>,
  \<open>age_group\<close> and \<open>q\<close> are given (truthy) and on which recognised keyword \<open>sort\<close> is:
  two query strings that agree on these four things produce the same text, whatever
  the values are and whatever the libraries do. The values are in the parameter list
  and only there: \<open>category\<close>, \<open>age_group\<close>, then \<open>q\<close> twice between two \<open>%\<close>, each when
  given; and the text has exactly one \<open>?\<close> for each parameter.
\<close>

theorem build_query_binds_values:
  "(truthy (get_prop q1 ''category'') = truthy (get_prop q2 ''category'')
      \<and> truthy (get_prop q1 ''age_group'') = truthy (get_prop q2 ''age_group'')
      \<and> truthy (get_prop q1 ''q'') = truthy (get_prop q2 ''q'')
      \<and> sort_kind (get_prop q1 ''sort'') = sort_kind (get_prop q2 ''sort'')
      \<longrightarrow> fst (build_query E1 q1) = fst (build_query E2 q2))
   \<and> snd (build_query E1 q1) =
       (if truthy (get_prop q1 ''category'') then [get_prop q1 ''category''] else []) @
       (if truthy (get_prop q1 ''age_group'') then [get_prop q1 ''age_group''] else []) @
       (if truthy (get_prop q1 ''q'')
        then [JStr (''%'' @ js_String E1 (get_prop q1 ''q'') @ ''%''),
              JStr (''%'' @ js_String E1 (get_prop q1 ''q'') @ ''%'')]
        else [])
   \<and> count_list (fst (build_query E1 q1)) CHR ''?'' = length (snd (build_query E1 q1))"
proof (intro conjI impI)
  assume "truthy (get_prop q1 ''category'') = truthy (get_prop q2 ''category'')
      \<and> truthy (get_prop q1 ''age_group'') = truthy (get_prop q2 ''age_group'')
      \<and> truthy (get_prop q1 ''q'') = truthy (get_prop q2 ''q'')
      \<and> sort_kind (get_prop q1 ''sort'') = sort_kind (get_prop q2 ''sort'')"
  then show "fst (build_query E1 q1) = fst (build_query E2 q2)"
    by (simp only: build_query_text)
next
  show "snd (build_query E1 q1) =
       (if truthy (get_prop q1 ''category'') then [get_prop q1 ''category''] else []) @
       (if truthy (get_prop q1 ''age_group'') then [get_prop q1 ''age_group''] else []) @
       (if truthy (get_prop q1 ''q'')
        then [JStr (''%'' @ js_String E1 (get_prop q1 ''q'') @ ''%''),
              JStr (''%'' @ js_String E1 (get_prop q1 ''q'') @ ''%'')]
        else [])"
    by (rule build_query_params)
next
  show "count_list (fst (build_query E1 q1)) CHR ''?'' = length (snd (build_query E1 q1))"
    by (simp add: build_query_text build_query_params split: sort_keyword.split)
qed

theorem build_query_binds_values_witness:
  "fst (build_query sample_env
          [(''category'', JStr ''Hoodies''), (''q'', JStr ''hood''),
           (''sort'', JStr ''price_asc'')])
     = fst (build_query sample_env
              [(''category'', JStr ''x; DROP TABLE users''), (''q'', JStr ''%_ OR 1=1''),
               (''sort'', JStr ''price_asc'')])
   \<and> fst (build_query sample_env
          [(''category'', JStr ''Hoodies''), (''q'', JStr ''hood''),
           (''sort'', JStr ''price_asc'')])
     = ''SELECT * FROM products WHERE category = ? AND (name LIKE ? OR description LIKE ?) ORDER BY price ASC''
   \<and> snd (build_query sample_env
              [(''category'', JStr ''x; DROP TABLE users''), (''q'', JStr ''%_ OR 1=1''),
               (''sort'', JStr ''price_asc'')])
     = [JStr ''x; DROP TABLE users'', JStr ''%%_ OR 1=1%'', JStr ''%%_ OR 1=1%'']"
  using build_query_binds_values
    [of "[(''category'', JStr ''Hoodies''), (''q'', JStr ''hood''),
          (''sort'', JStr ''price_asc'')]"
        "[(''category'', JStr ''x; DROP TABLE users''), (''q'', JStr ''%_ OR 1=1''),
          (''sort'', JStr ''price_asc'')]" sample_env sample_env]
     build_query_binds_values
    [of "[(''category'', JStr ''x; DROP TABLE users''), (''q'', JStr ''%_ OR 1=1''),
          (''sort'', JStr ''price_asc'')]" "[]" sample_env sample_env]
  by (simp add: get_prop_def sort_kind_def build_query_def)

subsection \<open>What the listing returns\<close>

text \<open>
  The text \<open>build_query\<close> produces is one the engine accepts, and what the engine
  evaluates for it is \<open>satisfies_filters\<close> and \<open>listing_order\<close>.
\<close>

lemma truthy_bind_text: "truthy v \<Longrightarrow> \<exists>s. bind_text E v = Some s"
  by (cases v) auto

lemma parse_select_build_query:
  "parse_select (fst (build_query E query)) =
     Some ((if truthy (get_prop query ''category'') then [CCategory] else []) @
           (if truthy (get_prop query ''age_group'') then [CAgeGroup] else []) @
           (if truthy (get_prop query ''q'') then [CSearch] else []),
           (listing_order (get_prop query ''sort'')))"
  unfolding build_query_text
  by (cases "sort_kind (get_prop query ''sort'')")
     (simp_all add: parse_select_def parse_cond_def parse_order_def listing_order_def)

lemma eval_conds_build_query:
  "\<exists>keep. eval_conds E ((if truthy (get_prop query ''category'') then [CCategory] else []) @
           (if truthy (get_prop query ''age_group'') then [CAgeGroup] else []) @
           (if truthy (get_prop query ''q'') then [CSearch] else []))
      (snd (build_query E query)) = Some keep \<and> (\<forall>r. keep r = satisfies_filters E query r)"
proof -
  have c: "truthy (get_prop query ''category'') \<Longrightarrow>
       sql_eq (p_category r) (bind_text E (get_prop query ''category''))
        = (p_category r = bind_text E (get_prop query ''category''))" for r :: product
    using truthy_bind_text[of "get_prop query ''category''" E] by (auto simp: sql_eq_def)
  have a: "truthy (get_prop query ''age_group'') \<Longrightarrow>
       sql_eq (p_age_group r) (bind_text E (get_prop query ''age_group''))
        = (p_age_group r = bind_text E (get_prop query ''age_group''))" for r :: product
    using truthy_bind_text[of "get_prop query ''age_group''" E] by (auto simp: sql_eq_def)
  have l: "sql_like (p_description r) (Some p)
             = (case p_description r of None \<Rightarrow> False | Some d \<Rightarrow> like_match p d)"
    for r :: product and p
    by (simp add: sql_like_def split: option.splits)
  have n: "sql_like (Some s) (Some p) = like_match p s" for s p
    by (simp add: sql_like_def)
  show ?thesis
    unfolding build_query_params
    by (cases "truthy (get_prop query ''category'')"; cases "truthy (get_prop query ''age_group'')";
        cases "truthy (get_prop query ''q'')")
       (simp_all add: satisfies_filters_def next_param_def c a l n split: option.split)
qed

lemma allAsync_build_query:
  "\<exists>keep. allAsync_products E db (fst (build_query E query)) (snd (build_query E query)) =
     Some (order_rows (listing_order (get_prop query ''sort''))
          (filter keep (sort_key p_id (products db)))) \<and> (\<forall>r. keep r = satisfies_filters E query r)"
proof -
  define cs where "cs = (if truthy (get_prop query ''category'') then [CCategory] else []) @
           (if truthy (get_prop query ''age_group'') then [CAgeGroup] else []) @
           (if truthy (get_prop query ''q'') then [CSearch] else [])"
  obtain keep where k: "eval_conds E cs (snd (build_query E query)) = Some keep"
    and s: "\<forall>r. keep r = satisfies_filters E query r"
    using eval_conds_build_query[of E query] unfolding cs_def by blast
  have "parse_select (fst (build_query E query)) =
     Some (cs, (listing_order (get_prop query ''sort'')))"
    unfolding cs_def by (rule parse_select_build_query)
  then have "allAsync_products E db (fst (build_query E query)) (snd (build_query E query)) =
     Some (order_rows (listing_order (get_prop query ''sort''))
          (filter keep (sort_key p_id (products db))))"
    using k by (simp add: allAsync_products_def)
  with s show ?thesis by blast
qed

lemma filter_satisfies: "(\<forall>r. keep r = satisfies_filters E query r) \<Longrightarrow> filter keep xs = filter (satisfies_filters E query) xs"
  by (rule filter_cong) auto

lemma list_products_eq:
  "list_products E db req =
     ((case those (map (parse_row E)
              (order_rows (listing_order (get_prop (r_query req) ''sort''))
                 (filter (satisfies_filters E (r_query req))
                    (sort_key p_id (products db))))) of
        None \<Rightarrow> Json 500 (Message ''Server error'')
      | Some parsed \<Rightarrow> Json 200 (ProductList parsed)), db)"
proof -
  obtain keep where k: "allAsync_products E db (fst (build_query E (r_query req))) (snd (build_query E (r_query req))) =
     Some (order_rows (listing_order (get_prop (r_query req) ''sort''))
          (filter keep (sort_key p_id (products db))))" and s: "\<forall>r. keep r = satisfies_filters E (r_query req) r"
    using allAsync_build_query[of E db "r_query req"] by blast
  show ?thesis
    using k filter_satisfies[OF s, of "sort_key p_id (products db)"]
    by (simp add: list_products_def case_prod_beta split: option.splits)
qed

lemma those_map_total:
  "\<forall>x\<in>set xs. f x \<noteq> None \<Longrightarrow> \<exists>ys. those (map f xs) = Some ys"
  by (induction xs) (auto split: option.splits)

lemma parse_row_l_row: "parse_row E r = Some x \<Longrightarrow> l_row x = r"
  by (auto simp: parse_row_def split: option.splits)

lemma those_parse_rows:
  "those (map (parse_row E) xs) = Some ys \<Longrightarrow> map l_row ys = xs"
proof (induction xs arbitrary: ys)
  case Nil then show ?case by simp
next
  case (Cons x xs)
  then show ?case by (auto split: option.splits dest: parse_row_l_row)
qed

lemma set_order_rows: "set (order_rows ob xs) = set xs"
  by (cases ob) simp_all














text \<open>
  \<open>ci_prefix\<close> and \<open>contains_ci\<close> say what they are meant to: the text splits into
  a part before, a part that is \<open>q\<close> up to the case of ASCII letters, and a part after.
\<close>

lemma ci_prefix_iff:
  "ci_prefix q s = (\<exists>m post. s = m @ post \<and> map lower m = map lower q)"
proof (induction q s rule: ci_prefix.induct)
  case (1 s)
  then show ?case by simp
next
  case (2 q qs)
  then show ?case by auto
next
  case (3 q qs c cs)
  show ?case
  proof
    assume "ci_prefix (q # qs) (c # cs)"
    then obtain m post where "cs = m @ post" "map lower m = map lower qs" "lower q = lower c"
      using 3 by auto
    then have "c # cs = (c # m) @ post \<and> map lower (c # m) = map lower (q # qs)" by simp
    then show "\<exists>m post. c # cs = m @ post \<and> map lower m = map lower (q # qs)" by blast
  next
    assume "\<exists>m post. c # cs = m @ post \<and> map lower m = map lower (q # qs)"
    then obtain m post where m: "c # cs = m @ post" "map lower m = map lower (q # qs)" by blast
    then obtain m' where "m = c # m'" "cs = m' @ post" "lower c = lower q" "map lower m' = map lower qs"
      by (cases m) auto
    then show "ci_prefix (q # qs) (c # cs)" using 3 by auto
  qed
qed

lemma contains_ci_iff:
  "contains_ci q s = (\<exists>pre m post. s = pre @ m @ post \<and> map lower m = map lower q)"
proof (induction s)
  case Nil
  then show ?case by auto
next
  case (Cons c cs)
  show ?case
  proof
    assume "contains_ci q (c # cs)"
    then consider "ci_prefix q (c # cs)" | "contains_ci q cs" by auto
    then show "\<exists>pre m post. c # cs = pre @ m @ post \<and> map lower m = map lower q"
    proof cases
      case 1
      then obtain m post where "c # cs = [] @ m @ post \<and> map lower m = map lower q"
        unfolding ci_prefix_iff by auto
      then show ?thesis by blast
    next
      case 2
      then obtain pre m post where "cs = pre @ m @ post" "map lower m = map lower q"
        using Cons by blast
      then have "c # cs = (c # pre) @ m @ post \<and> map lower m = map lower q" by simp
      then show ?thesis by blast
    qed
  next
    assume "\<exists>pre m post. c # cs = pre @ m @ post \<and> map lower m = map lower q"
    then obtain pre m post where m: "c # cs = pre @ m @ post" "map lower m = map lower q" by blast
    show "contains_ci q (c # cs)"
    proof (cases pre)
      case Nil
      then have "ci_prefix q (c # cs)" unfolding ci_prefix_iff using m by auto
      then show ?thesis by simp
    next
      case (Cons a pre')
      then have "cs = pre' @ m @ post" using m by simp
      then have "contains_ci q cs" using Cons.IH m by blast
      then show ?thesis by simp
    qed
  qed
qed

lemma list_products_rows:
  assumes "fst (list_products E db req) = Json 200 (ProductList rows)"
  shows "map l_row rows =
           order_rows (listing_order (get_prop (r_query req) ''sort''))
             (filter (satisfies_filters E (r_query req)) (sort_key p_id (products db)))"
  using assms those_parse_rows[of E _ rows]
  by (auto simp: list_products_eq split: option.splits)

lemma list_products_answers:
  assumes "\<forall>r\<in>set (products db). parse_row E r \<noteq> None"
  shows "\<exists>rows. fst (list_products E db req) = Json 200 (ProductList rows)"
proof -
  let ?xs = "order_rows (listing_order (get_prop (r_query req) ''sort''))
             (filter (satisfies_filters E (r_query req)) (sort_key p_id (products db)))"
  have "\<forall>r\<in>set ?xs. parse_row E r \<noteq> None"
    using assms by (simp add: set_order_rows)
  then obtain ys where "those (map (parse_row E) ?xs) = Some ys"
    using those_map_total by blast
  then show ?thesis by (simp add: list_products_eq)
qed

lemma hoodie_row:
  "parse_row sample_env hoodie = Some \<lparr>l_row = hoodie, l_images = JArr [], l_colors = JArr []\<rparr>"
  by (simp add: parse_row_def decode_column_def sample_env_def hoodie_def)

lemma tee_row:
  "parse_row sample_env tee = Some \<lparr>l_row = tee, l_images = JArr [], l_colors = JArr []\<rparr>"
  by (simp add: parse_row_def decode_column_def sample_env_def tee_def)


lemma sample_scan: "sort_key p_id (products sample_db) = [hoodie, tee]"
  by (simp add: sample_db_def hoodie_def tee_def)



subsection \<open>The order of the listing\<close>

lemma get_prop_sort_undefined:
  "k \<noteq> ''sort'' \<Longrightarrow> get_prop ((''sort'', JUndefined) # query) k = get_prop query k"
  "get_prop ((''sort'', JUndefined) # query) ''sort'' = JUndefined"
  by (simp_all add: get_prop_def)

text \<open>
  Claim C4. In a listing that is answered with rows, the prices are non-decreasing
  for \<open>sort=price_asc\<close> and non-increasing for \<open>sort=price_desc\<close> (NULL being the
  least price), the creation times are non-increasing for \<open>sort=newest\<close>, and the ids
  are non-increasing for every other value of \<open>sort\<close> and when there is none. No value
  of \<open>sort\<close> raises an error: the listing is answered with rows whenever the stored
  \<open>images\<close> and \<open>colors\<close> decode, and an unrecognised value is answered exactly as
  a request with no \<open>sort\<close> is.
\<close>

theorem list_products_ordered:
  "(\<forall>rows. fst (list_products E db req) = Json 200 (ProductList rows) \<longrightarrow>
      (get_prop (r_query req) ''sort'' = JStr ''price_asc''
         \<longrightarrow> sorted (map (\<lambda>x. p_price (l_row x)) rows))
      \<and> (get_prop (r_query req) ''sort'' = JStr ''price_desc''
         \<longrightarrow> sorted (rev (map (\<lambda>x. p_price (l_row x)) rows)))
      \<and> (get_prop (r_query req) ''sort'' = JStr ''newest''
         \<longrightarrow> sorted (rev (map (\<lambda>x. p_created_at (l_row x)) rows)))
      \<and> (sort_kind (get_prop (r_query req) ''sort'') = DefaultOrder
         \<longrightarrow> sorted (rev (map (\<lambda>x. p_id (l_row x)) rows))))
   \<and> ((\<forall>r\<in>set (products db). parse_row E r \<noteq> None) \<longrightarrow>
       (\<exists>rows. fst (list_products E db req) = Json 200 (ProductList rows)))
   \<and> (sort_kind (get_prop (r_query req) ''sort'') = DefaultOrder \<longrightarrow>
       list_products E db req
         = list_products E db (req\<lparr>r_query := (''sort'', JUndefined) # r_query req\<rparr>))"
proof (intro conjI allI impI)
  fix rows
  assume a: "fst (list_products E db req) = Json 200 (ProductList rows)"
  note m = list_products_rows[OF a]
  have c: "map (\<lambda>x. f (l_row x)) rows = map f (map l_row rows)" for f :: "product \<Rightarrow> 'b"
    by simp
  {
    assume "get_prop (r_query req) ''sort'' = JStr ''price_asc''"
    then show "sorted (map (\<lambda>x. p_price (l_row x)) rows)"
      unfolding c m by (simp add: listing_order_def sort_kind_def)
  next
    assume "get_prop (r_query req) ''sort'' = JStr ''price_desc''"
    then show "sorted (rev (map (\<lambda>x. p_price (l_row x)) rows))"
      unfolding c m by (simp add: listing_order_def sort_kind_def rev_map)
  next
    assume "get_prop (r_query req) ''sort'' = JStr ''newest''"
    then show "sorted (rev (map (\<lambda>x. p_created_at (l_row x)) rows))"
      unfolding c m by (simp add: listing_order_def sort_kind_def rev_map)
  next
    assume "sort_kind (get_prop (r_query req) ''sort'') = DefaultOrder"
    then show "sorted (rev (map (\<lambda>x. p_id (l_row x)) rows))"
      unfolding c m by (simp add: listing_order_def rev_map)
  }
next
  assume "\<forall>r\<in>set (products db). parse_row E r \<noteq> None"
  then show "\<exists>rows. fst (list_products E db req) = Json 200 (ProductList rows)"
    by (rule list_products_answers)
next
  assume d: "sort_kind (get_prop (r_query req) ''sort'') = DefaultOrder"
  have "satisfies_filters E ((''sort'', JUndefined) # r_query req) = satisfies_filters E (r_query req)"
    by (rule ext) (simp add: satisfies_filters_def get_prop_sort_undefined split: option.split)
  moreover have "listing_order (get_prop ((''sort'', JUndefined) # r_query req) ''sort'')
      = listing_order (get_prop (r_query req) ''sort'')"
    using d by (simp add: listing_order_def get_prop_sort_undefined sort_kind_def)
  ultimately show "list_products E db req
         = list_products E db (req\<lparr>r_query := (''sort'', JUndefined) # r_query req\<rparr>)"
    by (simp add: list_products_eq)
qed

text \<open>
  On the sample database \<open>sort=price_asc\<close> lists the tee (28) before the hoodie (45),
  and the unknown \<open>sort=cheapest\<close> lists them by descending id.
\<close>

theorem list_products_ordered_witness:
  "fst (list_products sample_env sample_db
          (request0\<lparr>r_query := [(''sort'', JStr ''price_asc'')]\<rparr>))
     = Json 200 (ProductList
         [\<lparr>l_row = tee, l_images = JArr [], l_colors = JArr []\<rparr>,
          \<lparr>l_row = hoodie, l_images = JArr [], l_colors = JArr []\<rparr>])
   \<and> sorted [p_price tee, p_price hoodie]
   \<and> fst (list_products sample_env sample_db
          (request0\<lparr>r_query := [(''sort'', JStr ''cheapest'')]\<rparr>))
     = Json 200 (ProductList
         [\<lparr>l_row = tee, l_images = JArr [], l_colors = JArr []\<rparr>,
          \<lparr>l_row = hoodie, l_images = JArr [], l_colors = JArr []\<rparr>])
   \<and> sort_kind (JStr ''cheapest'') = DefaultOrder
   \<and> sorted (rev [p_id tee, p_id hoodie])"
proof -
  have f: "satisfies_filters sample_env [(''sort'', v)] r" for v r
    by (simp add: satisfies_filters_def get_prop_def)
  have 1: "fst (list_products sample_env sample_db
          (request0\<lparr>r_query := [(''sort'', JStr ''price_asc'')]\<rparr>))
     = Json 200 (ProductList
         [\<lparr>l_row = tee, l_images = JArr [], l_colors = JArr []\<rparr>,
          \<lparr>l_row = hoodie, l_images = JArr [], l_colors = JArr []\<rparr>])"
    using hoodie_row tee_row
    by (simp add: list_products_eq sample_scan f request0_def listing_order_def sort_kind_def
          get_prop_def)
       (simp add: hoodie_def tee_def)
  have 2: "fst (list_products sample_env sample_db
          (request0\<lparr>r_query := [(''sort'', JStr ''cheapest'')]\<rparr>))
     = Json 200 (ProductList
         [\<lparr>l_row = tee, l_images = JArr [], l_colors = JArr []\<rparr>,
          \<lparr>l_row = hoodie, l_images = JArr [], l_colors = JArr []\<rparr>])"
    using hoodie_row tee_row
    by (simp add: list_products_eq sample_scan f request0_def listing_order_def sort_kind_def
          get_prop_def)
       (simp add: hoodie_def tee_def)
  have 3: "sort_kind (JStr ''cheapest'') = DefaultOrder" by (simp add: sort_kind_def)
  from list_products_ordered
         [of sample_env sample_db "request0\<lparr>r_query := [(''sort'', JStr ''price_asc'')]\<rparr>"]
       list_products_ordered
         [of sample_env sample_db "request0\<lparr>r_query := [(''sort'', JStr ''cheapest'')]\<rparr>"]
       1 2 3
  show ?thesis by (simp add: get_prop_def)
qed

subsection \<open>The authentication gate\<close>

lemma strip_prefix_Some: "strip_prefix p s = Some r \<Longrightarrow> s = p @ r"
  by (induction p s rule: strip_prefix.induct) (auto split: if_splits)

lemma split_on_not_Nil: "split_on d s \<noteq> []"
  by (induction s) (auto split: list.splits)

lemma hd_split_on: "hd (split_on d s) = takeWhile (\<lambda>c. c \<noteq> d) s"
  by (induction s) (auto split: list.splits simp: split_on_not_Nil)

lemma bearer_token_split:
  assumes "starts_with ''Bearer '' auth"
  shows "index (split_on CHR '' '' auth) 1 = Some (bearer_token auth)"
proof -
  from assms obtain rest where a: "auth = ''Bearer '' @ rest"
    by (auto simp: starts_with_def dest: strip_prefix_Some)
  obtain x xs where s: "split_on CHR '' '' rest = x # xs"
    using split_on_not_Nil[of "CHR '' ''" rest] by (cases "split_on CHR '' '' rest") auto
  have "x = takeWhile (\<lambda>c. c \<noteq> CHR '' '') rest"
    using hd_split_on[of "CHR '' ''" rest] s by simp
  then show ?thesis using s by (simp add: a index_def bearer_token_def)
qed

lemma authMiddleware_unauthenticated:
  assumes "unauthenticated E req"
  shows "authMiddleware E req =
           Inl (Json 401 (Message (case r_authorization req of
                  None \<Rightarrow> ''Unauthorized''
                | Some auth \<Rightarrow> if starts_with ''Bearer '' auth then ''Invalid token''
                               else ''Unauthorized'')))"
proof (cases "r_authorization req")
  case None
  then show ?thesis by (simp add: authMiddleware_def)
next
  case (Some auth)
  show ?thesis
  proof (cases "starts_with ''Bearer '' auth")
    case True
    then have "auth \<noteq> []" by (auto simp: starts_with_def)
    moreover from True assms Some
    have "jwt_verify E (bearer_token auth) (JWT_SECRET E) (r_now req) = None"
      by (simp add: unauthenticated_def)
    ultimately show ?thesis
      using True Some bearer_token_split[OF True] by (simp add: authMiddleware_def)
  next
    case False
    then show ?thesis using Some by (simp add: authMiddleware_def)
  qed
qed

lemma authMiddleware_authenticated:
  assumes "authenticated_as E req c"
  shows "authMiddleware E req = Inr (req\<lparr>r_user := Some c\<rparr>)"
proof -
  from assms obtain auth where a: "r_authorization req = Some auth"
      "starts_with ''Bearer '' auth"
      "jwt_verify E (bearer_token auth) (JWT_SECRET E) (r_now req) = Some c"
    by (auto simp: authenticated_as_def split: option.splits)
  then have "auth \<noteq> []" by (auto simp: starts_with_def)
  then show ?thesis using a bearer_token_split[OF a(2)] by (simp add: authMiddleware_def)
qed

lemma protected_middlewares:
  "protected rt \<Longrightarrow> route_middlewares rt = authMiddleware # tl (route_middlewares rt)"
  by (cases rt) (simp_all add: protected_def)

lemma alice_authenticated:
  "authenticated_as sample_env (request0\<lparr>r_authorization := Some ''Bearer tok.alice''\<rparr>) alice_claims"
  by (simp add: authenticated_as_def starts_with_def bearer_token_def sample_env_def request0_def)

text \<open>
  Claim C6. A request that is not authenticated (no \<open>Authorization\<close> header, a header
  that does not begin with \<open>Bearer\<close> and a space, or a token that fails verification)
  is answered 401 by \<open>authMiddleware\<close>: whatever middlewares and handler are registered
  after it, the response is the same and the database is untouched, so none of them
  ran; every protected route is registered that way. A request whose token verifies to
  the claims \<open>c\<close> goes on to the rest of the route with \<open>req.user\<close> set to \<open>c\<close>. Every
  request is one or the other.
\<close>

theorem authMiddleware_gate:
  "(unauthenticated E req \<longrightarrow>
      (\<exists>m. (\<forall>ms h. serve E (authMiddleware # ms) h db req = (Json 401 (Message m), db))
            \<and> (protected rt \<longrightarrow> handle E db rt req = (Json 401 (Message m), db))))
   \<and> (authenticated_as E req c \<longrightarrow>
        authMiddleware E req = Inr (req\<lparr>r_user := Some c\<rparr>)
        \<and> (\<forall>ms h. serve E (authMiddleware # ms) h db req
                     = serve E ms h db (req\<lparr>r_user := Some c\<rparr>))
        \<and> (protected rt \<longrightarrow>
             handle E db rt req
               = serve E (tl (route_middlewares rt)) (route_handler rt) db
                   (req\<lparr>r_user := Some c\<rparr>)))
   \<and> (unauthenticated E req \<or> (\<exists>c'. authenticated_as E req c'))"
proof (intro conjI impI)
  assume u: "unauthenticated E req"
  let ?m = "case r_authorization req of
                  None \<Rightarrow> ''Unauthorized''
                | Some auth \<Rightarrow> if starts_with ''Bearer '' auth then ''Invalid token''
                               else ''Unauthorized''"
  have s: "serve E (authMiddleware # ms) h db req = (Json 401 (Message ?m), db)" for ms h
    by (simp add: serve_def authMiddleware_unauthenticated[OF u])
  have "protected rt \<longrightarrow> handle E db rt req = (Json 401 (Message ?m), db)"
  proof
    assume "protected rt"
    then have "route_middlewares rt = authMiddleware # tl (route_middlewares rt)"
      by (rule protected_middlewares)
    then show "handle E db rt req = (Json 401 (Message ?m), db)"
      unfolding handle_def using s by metis
  qed
  with s show "\<exists>m. (\<forall>ms h. serve E (authMiddleware # ms) h db req = (Json 401 (Message m), db))
            \<and> (protected rt \<longrightarrow> handle E db rt req = (Json 401 (Message m), db))"
    by blast
next
  assume a: "authenticated_as E req c"
  then show "authMiddleware E req = Inr (req\<lparr>r_user := Some c\<rparr>)"
    by (rule authMiddleware_authenticated)
next
  assume a: "authenticated_as E req c"
  show "\<forall>ms h. serve E (authMiddleware # ms) h db req
                     = serve E ms h db (req\<lparr>r_user := Some c\<rparr>)"
    by (simp add: serve_def authMiddleware_authenticated[OF a])
next
  assume a: "authenticated_as E req c" and p: "protected rt"
  have "serve E (authMiddleware # ms) h db req
                     = serve E ms h db (req\<lparr>r_user := Some c\<rparr>)" for ms h
    by (simp add: serve_def authMiddleware_authenticated[OF a])
  then show "handle E db rt req
               = serve E (tl (route_middlewares rt)) (route_handler rt) db
                   (req\<lparr>r_user := Some c\<rparr>)"
    unfolding handle_def using protected_middlewares[OF p] by metis
next
  show "unauthenticated E req \<or> (\<exists>c'. authenticated_as E req c')"
    by (auto simp: unauthenticated_def authenticated_as_def split: option.splits)
qed

text \<open>
  On the sample installation: a request with no header and one with an unknown token
  are answered 401 on \<open>GET /api/wishlist\<close>; Alice's token attaches her claims.
\<close>

theorem authMiddleware_gate_witness:
  "unauthenticated sample_env request0
   \<and> protected GetWishlist
   \<and> handle sample_env sample_db GetWishlist request0
       = (Json 401 (Message ''Unauthorized''), sample_db)
   \<and> unauthenticated sample_env (request0\<lparr>r_authorization := Some ''Bearer tok.mallory''\<rparr>)
   \<and> handle sample_env sample_db GetWishlist
        (request0\<lparr>r_authorization := Some ''Bearer tok.mallory''\<rparr>)
       = (Json 401 (Message ''Invalid token''), sample_db)
   \<and> authenticated_as sample_env (request0\<lparr>r_authorization := Some ''Bearer tok.alice''\<rparr>)
        alice_claims
   \<and> authMiddleware sample_env (request0\<lparr>r_authorization := Some ''Bearer tok.alice''\<rparr>)
       = Inr (request0\<lparr>r_authorization := Some ''Bearer tok.alice'',
                       r_user := Some alice_claims\<rparr>)"
proof -
  have u1: "unauthenticated sample_env request0"
    by (simp add: unauthenticated_def request0_def)
  have u2: "unauthenticated sample_env (request0\<lparr>r_authorization := Some ''Bearer tok.mallory''\<rparr>)"
    by (simp add: unauthenticated_def starts_with_def bearer_token_def sample_env_def request0_def)
  have p: "protected GetWishlist" by (simp add: protected_def)
  from authMiddleware_gate[of sample_env request0 sample_db GetWishlist] u1 p
  obtain m1 where m1: "handle sample_env sample_db GetWishlist request0
       = (Json 401 (Message m1), sample_db)" by blast
  then have "m1 = ''Unauthorized''"
    by (simp add: handle_def serve_def authMiddleware_def request0_def)
  from authMiddleware_gate[of sample_env "request0\<lparr>r_authorization := Some ''Bearer tok.mallory''\<rparr>"
         sample_db GetWishlist] u2 p
  obtain m2 where m2: "handle sample_env sample_db GetWishlist
        (request0\<lparr>r_authorization := Some ''Bearer tok.mallory''\<rparr>)
       = (Json 401 (Message m2), sample_db)" by blast
  then have "m2 = ''Invalid token''"
    by (simp add: handle_def serve_def authMiddleware_def request0_def starts_with_def index_def
          sample_env_def)
  from authMiddleware_gate[of sample_env "request0\<lparr>r_authorization := Some ''Bearer tok.alice''\<rparr>"
         _ _ alice_claims] alice_authenticated
  have "authMiddleware sample_env (request0\<lparr>r_authorization := Some ''Bearer tok.alice''\<rparr>)
       = Inr (request0\<lparr>r_authorization := Some ''Bearer tok.alice'',
                       r_user := Some alice_claims\<rparr>)" by simp
  with u1 u2 p m1 m2 \<open>m1 = _\<close> \<open>m2 = _\<close> alice_authenticated show ?thesis by simp
qed

subsection \<open>The administrator gate\<close>

lemma admin_gated_middlewares:
  "admin_gated rt \<Longrightarrow> route_middlewares rt = [authMiddleware, adminMiddleware]"
  by (cases rt) (simp_all add: admin_gated_def)

lemma serve_admin_forbidden:
  assumes "authenticated_as E req c" and "c_is_admin c = 0"
  shows "serve E [authMiddleware, adminMiddleware] h db req
           = (Json 403 (Message ''Admin only''), db)"
  using assms(2)
  by (simp add: serve_def authMiddleware_authenticated[OF assms(1)] adminMiddleware_def)

text \<open>
  Claim C2. A request whose token verifies to claims with the admin flag \<open>0\<close> is
  answered 403 by every administrator route: \<open>authMiddleware\<close> lets it through,
  \<open>adminMiddleware\<close> answers, and whatever handler is registered behind the two the
  response is the same and the database is untouched. The four administrator routes are
  registered with exactly these two middlewares. The property is about the claims the
  token verifies to, whichever route issued it.
\<close>

theorem adminMiddleware_gate:
  "(authenticated_as E req c \<and> c_is_admin c = 0 \<longrightarrow>
      (\<forall>h. serve E [authMiddleware, adminMiddleware] h db req
              = (Json 403 (Message ''Admin only''), db))
      \<and> (admin_gated rt \<longrightarrow> handle E db rt req = (Json 403 (Message ''Admin only''), db)))
   \<and> (admin_gated rt \<longrightarrow> route_middlewares rt = [authMiddleware, adminMiddleware])"
proof (intro conjI impI allI)
  fix h
  assume "authenticated_as E req c \<and> c_is_admin c = 0"
  then show "serve E [authMiddleware, adminMiddleware] h db req
              = (Json 403 (Message ''Admin only''), db)"
    using serve_admin_forbidden by blast
next
  assume "authenticated_as E req c \<and> c_is_admin c = 0" and "admin_gated rt"
  then show "handle E db rt req = (Json 403 (Message ''Admin only''), db)"
    using serve_admin_forbidden[of E req c "route_handler rt" db]
    by (simp add: handle_def admin_gated_middlewares)
next
  assume "admin_gated rt"
  then show "route_middlewares rt = [authMiddleware, adminMiddleware]"
    by (rule admin_gated_middlewares)
qed

text \<open>
  On the sample installation Alice, who is no administrator, is refused on
  \<open>POST /api/admin/products\<close> and on \<open>POST /api/admin/seed-demo\<close>.
\<close>

theorem adminMiddleware_gate_witness:
  "authenticated_as sample_env
       (request0\<lparr>r_authorization := Some ''Bearer tok.alice'',
                 r_body := [(''name'', JStr ''Cap''), (''slug'', JStr ''cap'')]\<rparr>) alice_claims
   \<and> c_is_admin alice_claims = 0
   \<and> admin_gated PostAdminProducts
   \<and> handle sample_env sample_db PostAdminProducts
        (request0\<lparr>r_authorization := Some ''Bearer tok.alice'',
                  r_body := [(''name'', JStr ''Cap''), (''slug'', JStr ''cap'')]\<rparr>)
       = (Json 403 (Message ''Admin only''), sample_db)
   \<and> admin_gated PostAdminSeedDemo
   \<and> handle sample_env sample_db PostAdminSeedDemo
        (request0\<lparr>r_authorization := Some ''Bearer tok.alice'',
                  r_body := [(''name'', JStr ''Cap''), (''slug'', JStr ''cap'')]\<rparr>)
       = (Json 403 (Message ''Admin only''), sample_db)"
proof -
  have a: "authenticated_as sample_env
       (request0\<lparr>r_authorization := Some ''Bearer tok.alice'',
                 r_body := [(''name'', JStr ''Cap''), (''slug'', JStr ''cap'')]\<rparr>) alice_claims"
    by (simp add: authenticated_as_def starts_with_def bearer_token_def sample_env_def
          request0_def)
  have n: "c_is_admin alice_claims = 0" by (simp add: alice_claims_def)
  have g: "admin_gated PostAdminProducts" "admin_gated PostAdminSeedDemo"
    by (simp_all add: admin_gated_def)
  from adminMiddleware_gate[of sample_env _ alice_claims sample_db PostAdminProducts]
       adminMiddleware_gate[of sample_env _ alice_claims sample_db PostAdminSeedDemo]
       a n g
  show ?thesis by blast
qed

subsection \<open>Registration\<close>

lemma find_None_filter: "(find P xs = None) = (filter P xs = [])"
  by (induction xs) auto

lemma user_by_email_None:
  "(user_by_email E db email = None) = (users_with_email (bind_text E email) db = [])"
  by (simp add: user_by_email_def users_with_email_def find_None_filter)

lemma insert_user_fresh:
  "users_with_email email db = [] \<Longrightarrow>
   insert_user db name email password is_admin now =
     Some (next_id (seq_users db) (map u_id (users db)),
           db\<lparr>users := users db @
                 [\<lparr>u_id = next_id (seq_users db) (map u_id (users db)), u_name = name,
                   u_email = email, u_password = password, u_is_admin = is_admin,
                   u_created_at = now\<rparr>],
              seq_users := next_id (seq_users db) (map u_id (users db))\<rparr>)"
  by (auto simp: insert_user_def users_with_email_def filter_empty_conv Let_def)

text \<open>The four outcomes of a registration.\<close>

lemma register_cases:
  "register E db req =
     (if \<not> truthy (get_prop (r_body req) ''email'')
         \<or> \<not> truthy (get_prop (r_body req) ''password'')
      then (Json 400 (Message ''Email and password required''), db)
      else if users_with_email (bind_text E (get_prop (r_body req) ''email'')) db \<noteq> []
      then (Json 400 (Message ''Email already registered''), db)
      else case bcrypt_hash E (get_prop (r_body req) ''password'') 10 (r_salt req) of
             None \<Rightarrow> (Json 500 (Message ''Server error''), db)
           | Some hash \<Rightarrow>
               (Json 200 (Token (jwt_sign E
                   \<lparr>c_id = next_id (seq_users db) (map u_id (users db)),
                    c_email = get_prop (r_body req) ''email'', c_is_admin = 0\<rparr>
                   (JWT_SECRET E) (r_now req))),
                db\<lparr>users := users db @
                      [\<lparr>u_id = next_id (seq_users db) (map u_id (users db)),
                        u_name = bind_text E (js_or (get_prop (r_body req) ''name'') (JStr [])),
                        u_email = bind_text E (get_prop (r_body req) ''email''),
                        u_password = hash, u_is_admin = 0, u_created_at = r_now req\<rparr>],
                   seq_users := next_id (seq_users db) (map u_id (users db))\<rparr>))"
proof (cases "user_by_email E db (get_prop (r_body req) ''email'')")
  case None
  then have "users_with_email (bind_text E (get_prop (r_body req) ''email'')) db = []"
    by (simp add: user_by_email_None)
  then show ?thesis
    using None by (simp add: register_def insert_user_fresh Let_def split: option.splits)
next
  case (Some u)
  then have "users_with_email (bind_text E (get_prop (r_body req) ''email'')) db \<noteq> []"
    using user_by_email_None[of E db "get_prop (r_body req) ''email''"] by simp
  then show ?thesis using Some by (simp add: register_def Let_def)
qed

lemma register_carol:
  "register sample_env sample_db (request0\<lparr>r_body := carol\<rparr>) =
     (Json 200 (Token ''tok.new''),
      sample_db\<lparr>users := users sample_db @
                  [\<lparr>u_id = 4, u_name = Some ''Carol'', u_email = Some ''carol@x.com'',
                    u_password = ''$2b$pw123456'', u_is_admin = 0, u_created_at = 1000\<rparr>],
                seq_users := 4\<rparr>)"
  by (simp add: register_cases carol_def request0_def get_prop_def users_with_email_def
        sql_eq_def sample_db_def sample_env_def next_id_def js_or_def)

text \<open>
  Claim C9. Whatever the body of a registration request holds, the request adds at
  most one row to the user table, changes no other row, and the row it adds has
  \<open>is_admin = 0\<close>; a token it issues is the signature of claims with the id of that
  row, the email of the body and the admin flag \<open>0\<close>. A request with an email and a
  password, whose email no user has and whose password the hash library accepts, does
  add its row and is issued its token.
\<close>

theorem register_never_admin:
  "\<exists>new.
     users (snd (register E db req)) = users db @ new
     \<and> length new \<le> 1
     \<and> (\<forall>u\<in>set new. u_is_admin u = 0)
     \<and> (\<forall>t. fst (register E db req) = Json 200 (Token t) \<longrightarrow>
           (\<exists>uid. map u_id new = [uid]
              \<and> t = jwt_sign E \<lparr>c_id = uid, c_email = get_prop (r_body req) ''email'',
                                 c_is_admin = 0\<rparr> (JWT_SECRET E) (r_now req)))
     \<and> (truthy (get_prop (r_body req) ''email'')
          \<and> truthy (get_prop (r_body req) ''password'')
          \<and> users_with_email (bind_text E (get_prop (r_body req) ''email'')) db = []
          \<and> bcrypt_hash E (get_prop (r_body req) ''password'') 10 (r_salt req) \<noteq> None
          \<longrightarrow> (\<exists>t. fst (register E db req) = Json 200 (Token t)) \<and> length new = 1)"
proof -
  let ?email = "get_prop (r_body req) ''email''"
  let ?password = "get_prop (r_body req) ''password''"
  consider
      (invalid) "\<not> truthy ?email \<or> \<not> truthy ?password"
    | (conflict) "truthy ?email" "truthy ?password"
        "users_with_email (bind_text E ?email) db \<noteq> []"
    | (rejected) "truthy ?email" "truthy ?password"
        "users_with_email (bind_text E ?email) db = []"
        "bcrypt_hash E ?password 10 (r_salt req) = None"
    | (created) hash where "truthy ?email" "truthy ?password"
        "users_with_email (bind_text E ?email) db = []"
        "bcrypt_hash E ?password 10 (r_salt req) = Some hash"
    by (cases "bcrypt_hash E ?password 10 (r_salt req)") auto
  then show ?thesis
  proof cases
    case invalid
    then have "register E db req = (Json 400 (Message ''Email and password required''), db)"
      by (simp add: register_cases)
    then show ?thesis using invalid by (intro exI[of _ "[]"]) auto
  next
    case conflict
    then have "register E db req = (Json 400 (Message ''Email already registered''), db)"
      by (simp add: register_cases)
    then show ?thesis using conflict by (intro exI[of _ "[]"]) auto
  next
    case rejected
    then have "register E db req = (Json 500 (Message ''Server error''), db)"
      by (simp add: register_cases)
    then show ?thesis using rejected by (intro exI[of _ "[]"]) auto
  next
    case created
    let ?uid = "next_id (seq_users db) (map u_id (users db))"
    let ?u = "\<lparr>u_id = ?uid,
               u_name = bind_text E (js_or (get_prop (r_body req) ''name'') (JStr [])),
               u_email = bind_text E ?email,
               u_password = hash, u_is_admin = 0, u_created_at = r_now req\<rparr>"
    have "register E db req =
            (Json 200 (Token (jwt_sign E
                \<lparr>c_id = ?uid, c_email = ?email, c_is_admin = 0\<rparr> (JWT_SECRET E) (r_now req))),
             db\<lparr>users := users db @ [?u], seq_users := ?uid\<rparr>)"
      using created by (simp add: register_cases)
    then show ?thesis by (intro exI[of _ "[?u]"]) simp
  qed
qed

text \<open>
  On the sample installation Carol registers with \<open>is_admin: true\<close> in her body; her
  row and her token carry the flag \<open>0\<close>.
\<close>

theorem register_never_admin_witness:
  "truthy (get_prop (r_body (request0\<lparr>r_body := carol\<rparr>)) ''is_admin'')
   \<and> fst (register sample_env sample_db (request0\<lparr>r_body := carol\<rparr>))
        = Json 200 (Token ''tok.new'')
   \<and> users (snd (register sample_env sample_db (request0\<lparr>r_body := carol\<rparr>)))
        = users sample_db @
            [\<lparr>u_id = 4, u_name = Some ''Carol'', u_email = Some ''carol@x.com'',
              u_password = ''$2b$pw123456'', u_is_admin = 0, u_created_at = 1000\<rparr>]
   \<and> ''tok.new'' = jwt_sign sample_env
         \<lparr>c_id = 4, c_email = JStr ''carol@x.com'', c_is_admin = 0\<rparr>
         (JWT_SECRET sample_env) 1000"
  using register_never_admin[of sample_env sample_db "request0\<lparr>r_body := carol\<rparr>"]
        register_carol
  by (simp add: carol_def get_prop_def sample_env_def)

















subsection \<open>Login\<close>

text \<open>
  Claim C7 at a login with a known email and no password: \<open>bcrypt.compare\<close> rejects
  data that is \<open>undefined\<close>, the \<open>catch\<close> answers 500, and the claim's 400 is not
  what is sent. \<open>/api/register\<close> checks that a password is there; \<open>/api/login\<close> does not.
\<close>

theorem login_missing_password:
  "user_by_email sample_env sample_db (JStr ''alice@x.com'') \<noteq> None
   \<and> get_prop [(''email'', JStr ''alice@x.com'')] ''password'' = JUndefined
   \<and> login sample_env sample_db (request0\<lparr>r_body := [(''email'', JStr ''alice@x.com'')]\<rparr>)
       = (Json 500 (Message ''Server error''), sample_db)"
  by (simp add: login_def user_by_email_def sql_eq_def get_prop_def sample_db_def
        sample_env_def request0_def)


subsection \<open>The wishlist\<close>

lemma handle_wishlist_post:
  assumes "authenticated_as E req c"
  shows "handle E db PostWishlist req =
           (Json 200 Success,
            insert_or_ignore_wishlist db (Some (c_id c))
              (bind_int E (get_prop (r_body req) ''product_id'')) (r_now req))"
  by (simp add: handle_def serve_def authMiddleware_authenticated[OF assms] add_wishlist_def)

lemma wishlist_entries_empty:
  "(wishlist_entries uid pid db = []) =
     (\<not> (\<exists>w\<in>set (wishlists db).
            sql_eq (w_user_id w) (Some uid) \<and> sql_eq (w_product_id w) (Some pid)))"
  by (auto simp: wishlist_entries_def sql_eq_def filter_empty_conv)

lemma insert_or_ignore_present:
  "wishlist_entries uid pid db \<noteq> [] \<Longrightarrow>
   insert_or_ignore_wishlist db (Some uid) (Some pid) now
     = db\<lparr>seq_wishlists := next_id (seq_wishlists db) (map w_id (wishlists db))\<rparr>"
  by (simp add: insert_or_ignore_wishlist_def wishlist_entries_empty Let_def)

lemma wishlist_entries_seq:
  "wishlist_entries uid pid (db\<lparr>seq_wishlists := n\<rparr>) = wishlist_entries uid pid db"
  by (simp add: wishlist_entries_def)

lemma insert_or_ignore_absent:
  "wishlist_entries uid pid db = [] \<Longrightarrow>
   wishlist_entries uid pid (insert_or_ignore_wishlist db (Some uid) (Some pid) now)
     = [\<lparr>w_id = next_id (seq_wishlists db) (map w_id (wishlists db)),
         w_user_id = Some uid, w_product_id = Some pid, w_created_at = now\<rparr>]"
  using wishlist_entries_empty[of uid pid db]
  by (simp add: insert_or_ignore_wishlist_def Let_def) (simp add: wishlist_entries_def)

lemma insert_or_ignore_one:
  "length (wishlist_entries uid pid db) \<le> 1 \<Longrightarrow>
   length (wishlist_entries uid pid
             (insert_or_ignore_wishlist db (Some uid) (Some pid) now)) = 1"
proof (cases "wishlist_entries uid pid db = []")
  case True
  then show ?thesis by (simp add: insert_or_ignore_absent)
next
  case False
  moreover assume "length (wishlist_entries uid pid db) \<le> 1"
  ultimately have "length (wishlist_entries uid pid db) = 1"
    by (cases "wishlist_entries uid pid db") auto
  then show ?thesis using False by (simp add: insert_or_ignore_present wishlist_entries_seq)
qed

lemma alice_adds_authenticated: "authenticated_as sample_env alice_adds alice_claims"
  by (simp add: alice_adds_def authenticated_as_def starts_with_def bearer_token_def
        sample_env_def request0_def)

lemma alice_adds_once:
  "handle sample_env sample_db PostWishlist alice_adds =
     (Json 200 Success,
      sample_db\<lparr>wishlists := wishlists sample_db @
                   [\<lparr>w_id = 2, w_user_id = Some 1, w_product_id = Some 1,
                     w_created_at = 1000\<rparr>],
                 seq_wishlists := 2\<rparr>)"
  by (simp add: handle_wishlist_post[OF alice_adds_authenticated])
     (simp add: alice_adds_def alice_claims_def insert_or_ignore_wishlist_def get_prop_def
        sample_db_def sql_eq_def next_id_def request0_def)

text \<open>
  Claim C8. Two requests to add to the wishlist, both authenticated as the same user
  and both naming the same product id, both succeed, and after each of them the
  wishlist table holds exactly one row for that user and product. The second request
  leaves every row of every table as it was; all it changes is the \<open>AUTOINCREMENT\<close>
  counter of the wishlist table, which advances past the row id that the ignored
  \<open>INSERT\<close> had drawn. (The table is taken to hold at most one such row beforehand, as
  its \<open>UNIQUE\<close> constraint guarantees.)
\<close>

theorem wishlist_add_idempotent:
  "authenticated_as E req1 c1 \<and> authenticated_as E req2 c2
   \<and> c_id c1 = uid \<and> c_id c2 = uid
   \<and> bind_int E (get_prop (r_body req1) ''product_id'') = Some pid
   \<and> bind_int E (get_prop (r_body req2) ''product_id'') = Some pid
   \<and> length (wishlist_entries uid pid db) \<le> 1
   \<longrightarrow> fst (handle E db PostWishlist req1) = Json 200 Success
       \<and> handle E (snd (handle E db PostWishlist req1)) PostWishlist req2
           = (Json 200 Success,
              (snd (handle E db PostWishlist req1))
                \<lparr>seq_wishlists :=
                   next_id (seq_wishlists (snd (handle E db PostWishlist req1)))
                     (map w_id (wishlists (snd (handle E db PostWishlist req1))))\<rparr>)
       \<and> wishlists (snd (handle E (snd (handle E db PostWishlist req1)) PostWishlist req2))
           = wishlists (snd (handle E db PostWishlist req1))
       \<and> length (wishlist_entries uid pid (snd (handle E db PostWishlist req1))) = 1
       \<and> length (wishlist_entries uid pid
                   (snd (handle E (snd (handle E db PostWishlist req1)) PostWishlist req2))) = 1"
proof
  assume a: "authenticated_as E req1 c1 \<and> authenticated_as E req2 c2
   \<and> c_id c1 = uid \<and> c_id c2 = uid
   \<and> bind_int E (get_prop (r_body req1) ''product_id'') = Some pid
   \<and> bind_int E (get_prop (r_body req2) ''product_id'') = Some pid
   \<and> length (wishlist_entries uid pid db) \<le> 1"
  let ?db1 = "insert_or_ignore_wishlist db (Some uid) (Some pid) (r_now req1)"
  let ?db2 = "?db1\<lparr>seq_wishlists := next_id (seq_wishlists ?db1) (map w_id (wishlists ?db1))\<rparr>"
  have 1: "handle E db PostWishlist req1 = (Json 200 Success, ?db1)"
    using a handle_wishlist_post[of E req1 c1 db] by simp
  have one: "length (wishlist_entries uid pid ?db1) = 1"
    using a by (simp add: insert_or_ignore_one)
  then have "wishlist_entries uid pid ?db1 \<noteq> []" by auto
  then have same: "insert_or_ignore_wishlist ?db1 (Some uid) (Some pid) (r_now req2) = ?db2"
    by (rule insert_or_ignore_present)
  have 2: "handle E ?db1 PostWishlist req2 = (Json 200 Success, ?db2)"
    using a handle_wishlist_post[of E req2 c2 ?db1] same by simp
  have two: "length (wishlist_entries uid pid ?db2) = 1"
    using one by (simp only: wishlist_entries_seq)
  show "fst (handle E db PostWishlist req1) = Json 200 Success
       \<and> handle E (snd (handle E db PostWishlist req1)) PostWishlist req2
           = (Json 200 Success,
              (snd (handle E db PostWishlist req1))
                \<lparr>seq_wishlists :=
                   next_id (seq_wishlists (snd (handle E db PostWishlist req1)))
                     (map w_id (wishlists (snd (handle E db PostWishlist req1))))\<rparr>)
       \<and> wishlists (snd (handle E (snd (handle E db PostWishlist req1)) PostWishlist req2))
           = wishlists (snd (handle E db PostWishlist req1))
       \<and> length (wishlist_entries uid pid (snd (handle E db PostWishlist req1))) = 1
       \<and> length (wishlist_entries uid pid
                   (snd (handle E (snd (handle E db PostWishlist req1)) PostWishlist req2))) = 1"
    unfolding 1 2 snd_conv fst_conv using one two by simp
qed

text \<open>
  On the sample installation Alice adds product 1 twice. The first request stores row 2;
  the second stores nothing and moves the counter from 2 to 3.
\<close>

theorem wishlist_add_idempotent_witness:
  "authenticated_as sample_env alice_adds alice_claims
   \<and> authenticated_as sample_env (alice_adds\<lparr>r_now := 2000\<rparr>) alice_claims
   \<and> c_id alice_claims = 1
   \<and> bind_int sample_env (get_prop (r_body alice_adds) ''product_id'') = Some 1
   \<and> wishlist_entries 1 1 sample_db = []
   \<and> handle sample_env sample_db PostWishlist alice_adds
       = (Json 200 Success,
          sample_db\<lparr>wishlists := wishlists sample_db @
                       [\<lparr>w_id = 2, w_user_id = Some 1, w_product_id = Some 1,
                         w_created_at = 1000\<rparr>],
                     seq_wishlists := 2\<rparr>)
   \<and> handle sample_env (snd (handle sample_env sample_db PostWishlist alice_adds))
        PostWishlist (alice_adds\<lparr>r_now := 2000\<rparr>)
       = (Json 200 Success,
          sample_db\<lparr>wishlists := wishlists sample_db @
                       [\<lparr>w_id = 2, w_user_id = Some 1, w_product_id = Some 1,
                         w_created_at = 1000\<rparr>],
                     seq_wishlists := 3\<rparr>)
   \<and> wishlist_entries 1 1 (snd (handle sample_env sample_db PostWishlist alice_adds))
       = [\<lparr>w_id = 2, w_user_id = Some 1, w_product_id = Some 1, w_created_at = 1000\<rparr>]
   \<and> wishlist_entries 1 1
        (snd (handle sample_env (snd (handle sample_env sample_db PostWishlist alice_adds))
                PostWishlist (alice_adds\<lparr>r_now := 2000\<rparr>)))
       = [\<lparr>w_id = 2, w_user_id = Some 1, w_product_id = Some 1, w_created_at = 1000\<rparr>]"
proof -
  have a2: "authenticated_as sample_env (alice_adds\<lparr>r_now := 2000\<rparr>) alice_claims"
    by (simp add: alice_adds_def authenticated_as_def starts_with_def bearer_token_def
        sample_env_def request0_def)
  have i: "c_id alice_claims = 1" by (simp add: alice_claims_def)
  have b: "bind_int sample_env (get_prop (r_body alice_adds) ''product_id'') = Some 1"
          "bind_int sample_env (get_prop (r_body (alice_adds\<lparr>r_now := 2000\<rparr>)) ''product_id'') = Some 1"
    by (simp_all add: alice_adds_def get_prop_def request0_def)
  have e: "wishlist_entries 1 1 sample_db = []"
    by (simp add: wishlist_entries_def sample_db_def)
  have w: "wishlist_entries 1 1 (snd (handle sample_env sample_db PostWishlist alice_adds))
       = [\<lparr>w_id = 2, w_user_id = Some 1, w_product_id = Some 1, w_created_at = 1000\<rparr>]"
    unfolding alice_adds_once by (simp add: wishlist_entries_def sample_db_def)
  have n: "next_id 2 (map w_id (wishlists sample_db) @ [2]) = 3"
    by (simp add: next_id_def sample_db_def)
  from wishlist_add_idempotent[of sample_env alice_adds alice_claims
         "alice_adds\<lparr>r_now := 2000\<rparr>" alice_claims 1 1 sample_db]
       alice_adds_authenticated a2 i b e w
  show ?thesis unfolding alice_adds_once by (simp add: n wishlist_entries_def)
qed

lemma handle_wishlist_unauthenticated:
  assumes "unauthenticated E req" and "wishlist_route rt"
  shows "snd (handle E db rt req) = db"
  using assms(2)
  by (auto simp: wishlist_route_def handle_def serve_def
        authMiddleware_unauthenticated[OF assms(1)])

lemma handle_wishlist_get:
  assumes "authenticated_as E req c"
  shows "handle E db GetWishlist req =
           ((case those (map (wish_item_of E) (wishlist_rows db (Some (c_id c)))) of
               None \<Rightarrow> Unhandled
             | Some parsed \<Rightarrow> Json 200 (WishlistItems parsed)), db)"
  by (simp add: handle_def serve_def authMiddleware_authenticated[OF assms] get_wishlist_def
        split: option.splits)

lemma handle_wishlist_delete:
  assumes "authenticated_as E req c"
  shows "handle E db DeleteWishlist req =
           (Json 200 Success,
            db\<lparr>wishlists :=
                 filter (\<lambda>w. \<not> (sql_eq (w_user_id w) (Some (c_id c))
                                  \<and> sql_eq (w_product_id w)
                                       (bind_int E (get_prop (r_params req) ''product_id''))))
                   (wishlists db)\<rparr>)"
  by (simp add: handle_def serve_def authMiddleware_authenticated[OF assms] remove_wishlist_def)

lemma sql_eq_Some: "sql_eq a (Some x) = (a = Some x)"
  by (auto simp: sql_eq_def)

lemma wishlist_rows_own:
  "wishlist_rows db (Some uid) =
     concat (map (\<lambda>w. concat (map (\<lambda>p. if sql_eq (Some (p_id p)) (w_product_id w)
                                          then [(w, p)] else []) (products db)))
               (sort_key w_product_id (wishlist_of uid db)))"
  by (simp add: wishlist_rows_def wishlist_of_def sql_eq_Some)

lemma wishlist_rows_fst:
  "r \<in> set (wishlist_rows db (Some uid)) \<Longrightarrow> fst r \<in> set (wishlist_of uid db)"
  unfolding wishlist_rows_own by (auto split: if_splits)

lemma those_map_set:
  "those (map f xs) = Some ys \<Longrightarrow> y \<in> set ys \<Longrightarrow> \<exists>x\<in>set xs. f x = Some y"
proof (induction xs arbitrary: ys)
  case Nil
  then show ?case by simp
next
  case (Cons x xs)
  then show ?case by (auto split: option.splits)
qed

lemma wish_item_of_ids:
  "wish_item_of E r = Some i \<Longrightarrow> wi_id i = w_id (fst r) \<and> wi_product_id i = w_product_id (fst r)"
  by (auto simp: wish_item_of_def split: option.splits)

lemma others_insert_or_ignore:
  "wishlist_of_others uid (insert_or_ignore_wishlist db (Some uid) pid now)
     = wishlist_of_others uid db"
  by (simp add: insert_or_ignore_wishlist_def wishlist_of_others_def Let_def)

lemma insert_or_ignore_frame:
  "users (insert_or_ignore_wishlist db u p now) = users db"
  "products (insert_or_ignore_wishlist db u p now) = products db"
  by (simp_all add: insert_or_ignore_wishlist_def Let_def)

lemma alice_removes_authenticated: "authenticated_as sample_env alice_removes alice_claims"
  by (simp add: alice_removes_def authenticated_as_def starts_with_def bearer_token_def
        sample_env_def request0_def)

text \<open>
  Claim C10. On the three wishlist routes the only user id that is used is the one of
  the verified claims. A request that is not authenticated changes nothing. A request
  authenticated with claims \<open>c\<close> leaves the wishlist rows of every other user, the user
  table and the product table as they were, whatever its body and its path name; the
  items a listing returns are rows of \<open>c\<close>'s own wishlist; and the response is the same
  on any database with the same products and the same rows of \<open>c\<close>, that is, it does
  not depend on the rows of anyone else.
\<close>

theorem wishlist_isolation:
  "wishlist_route rt \<longrightarrow>
     (unauthenticated E req \<longrightarrow> snd (handle E db rt req) = db)
     \<and> (authenticated_as E req c \<longrightarrow>
          wishlist_of_others (c_id c) (snd (handle E db rt req)) = wishlist_of_others (c_id c) db
          \<and> users (snd (handle E db rt req)) = users db
          \<and> products (snd (handle E db rt req)) = products db
          \<and> (\<forall>items. fst (handle E db rt req) = Json 200 (WishlistItems items) \<longrightarrow>
                (\<forall>i\<in>set items. \<exists>w\<in>set (wishlist_of (c_id c) db).
                    wi_id i = w_id w \<and> wi_product_id i = w_product_id w))
          \<and> (\<forall>db2. products db2 = products db
                    \<and> wishlist_of (c_id c) db2 = wishlist_of (c_id c) db
                 \<longrightarrow> fst (handle E db2 rt req) = fst (handle E db rt req)))"
proof (intro impI conjI allI)
  assume "wishlist_route rt" "unauthenticated E req"
  then show "snd (handle E db rt req) = db"
    by (simp add: handle_wishlist_unauthenticated)
next
  assume rt: "wishlist_route rt" and a: "authenticated_as E req c"
  from rt consider "rt = GetWishlist" | "rt = PostWishlist" | "rt = DeleteWishlist"
    by (auto simp: wishlist_route_def)
  then show "wishlist_of_others (c_id c) (snd (handle E db rt req)) = wishlist_of_others (c_id c) db"
  proof cases
    case 1
    then show ?thesis by (simp add: handle_wishlist_get[OF a])
  next
    case 2
    then show ?thesis by (simp add: handle_wishlist_post[OF a] others_insert_or_ignore)
  next
    case 3
    then show ?thesis
      unfolding wishlist_of_others_def
      by (simp add: handle_wishlist_delete[OF a] sql_eq_Some cong: filter_cong) 
         (rule filter_cong, auto)
  qed
next
  assume rt: "wishlist_route rt" and a: "authenticated_as E req c"
  from rt consider "rt = GetWishlist" | "rt = PostWishlist" | "rt = DeleteWishlist"
    by (auto simp: wishlist_route_def)
  then show "users (snd (handle E db rt req)) = users db"
    by cases
      (simp_all add: handle_wishlist_get[OF a] handle_wishlist_post[OF a]
         handle_wishlist_delete[OF a] insert_or_ignore_frame)
next
  assume rt: "wishlist_route rt" and a: "authenticated_as E req c"
  from rt consider "rt = GetWishlist" | "rt = PostWishlist" | "rt = DeleteWishlist"
    by (auto simp: wishlist_route_def)
  then show "products (snd (handle E db rt req)) = products db"
    by cases
      (simp_all add: handle_wishlist_get[OF a] handle_wishlist_post[OF a]
         handle_wishlist_delete[OF a] insert_or_ignore_frame)
next
  fix items
  assume rt: "wishlist_route rt" and a: "authenticated_as E req c"
    and f: "fst (handle E db rt req) = Json 200 (WishlistItems items)"
  from rt consider "rt = GetWishlist" | "rt = PostWishlist" | "rt = DeleteWishlist"
    by (auto simp: wishlist_route_def)
  then show "\<forall>i\<in>set items. \<exists>w\<in>set (wishlist_of (c_id c) db).
                    wi_id i = w_id w \<and> wi_product_id i = w_product_id w"
  proof cases
    case 1
    with f have t: "those (map (wish_item_of E) (wishlist_rows db (Some (c_id c)))) = Some items"
      by (simp add: handle_wishlist_get[OF a] split: option.splits)
    show ?thesis
    proof
      fix i assume "i \<in> set items"
      then obtain r where "r \<in> set (wishlist_rows db (Some (c_id c)))" "wish_item_of E r = Some i"
        using those_map_set[OF t] by blast
      then show "\<exists>w\<in>set (wishlist_of (c_id c) db).
                    wi_id i = w_id w \<and> wi_product_id i = w_product_id w"
        using wishlist_rows_fst wish_item_of_ids by blast
    qed
  next
    case 2
    with f show ?thesis by (simp add: handle_wishlist_post[OF a])
  next
    case 3
    with f show ?thesis by (simp add: handle_wishlist_delete[OF a])
  qed
next
  fix db2
  assume rt: "wishlist_route rt" and a: "authenticated_as E req c"
    and s: "products db2 = products db \<and> wishlist_of (c_id c) db2 = wishlist_of (c_id c) db"
  then have r: "wishlist_rows db2 (Some (c_id c)) = wishlist_rows db (Some (c_id c))"
    by (simp add: wishlist_rows_own)
  from rt consider "rt = GetWishlist" | "rt = PostWishlist" | "rt = DeleteWishlist"
    by (auto simp: wishlist_route_def)
  then show "fst (handle E db2 rt req) = fst (handle E db rt req)"
    by cases
      (simp_all add: handle_wishlist_get[OF a] handle_wishlist_post[OF a]
         handle_wishlist_delete[OF a] r)
qed

text \<open>
  On the sample installation Bob has product 1 on his wishlist. Alice removing
  product 1 leaves Bob's row, Alice's listing is empty, and Alice adding product 1 with
  Bob's id in the body creates a row of her own.
\<close>

theorem wishlist_isolation_witness:
  "wishlist_route DeleteWishlist \<and> wishlist_route GetWishlist \<and> wishlist_route PostWishlist
   \<and> authenticated_as sample_env alice_removes alice_claims
   \<and> authenticated_as sample_env alice_adds alice_claims
   \<and> c_id alice_claims = 1
   \<and> wishlist_of_others 1 sample_db
       = [\<lparr>w_id = 1, w_user_id = Some 2, w_product_id = Some 1, w_created_at = 300\<rparr>]
   \<and> bind_int sample_env (get_prop (r_params alice_removes) ''product_id'') = Some 1
   \<and> handle sample_env sample_db DeleteWishlist alice_removes = (Json 200 Success, sample_db)
   \<and> wishlist_of_others 1 (snd (handle sample_env sample_db DeleteWishlist alice_removes))
       = wishlist_of_others 1 sample_db
   \<and> fst (handle sample_env sample_db GetWishlist alice_removes) = Json 200 (WishlistItems [])
   \<and> get_prop (r_body alice_adds) ''user_id'' = JNum 2
   \<and> wishlist_of_others 1 (snd (handle sample_env sample_db PostWishlist alice_adds))
       = wishlist_of_others 1 sample_db
   \<and> wishlist_of 1 (snd (handle sample_env sample_db PostWishlist alice_adds))
       = [\<lparr>w_id = 2, w_user_id = Some 1, w_product_id = Some 1, w_created_at = 1000\<rparr>]"
proof -
  have r: "wishlist_route DeleteWishlist" "wishlist_route GetWishlist" "wishlist_route PostWishlist"
    by (simp_all add: wishlist_route_def)
  have i: "c_id alice_claims = 1" by (simp add: alice_claims_def)
  have o: "wishlist_of_others 1 sample_db
       = [\<lparr>w_id = 1, w_user_id = Some 2, w_product_id = Some 1, w_created_at = 300\<rparr>]"
    by (simp add: wishlist_of_others_def sample_db_def)
  have b: "bind_int sample_env (get_prop (r_params alice_removes) ''product_id'') = Some 1"
    by (simp add: alice_removes_def get_prop_def request0_def sample_env_def)
  have d: "handle sample_env sample_db DeleteWishlist alice_removes = (Json 200 Success, sample_db)"
    unfolding handle_wishlist_delete[OF alice_removes_authenticated] b i
    by (simp add: sample_db_def sql_eq_def)
  have g: "fst (handle sample_env sample_db GetWishlist alice_removes) = Json 200 (WishlistItems [])"
    unfolding handle_wishlist_get[OF alice_removes_authenticated] i
    by (simp add: wishlist_rows_def sample_db_def sql_eq_def)
  have u: "get_prop (r_body alice_adds) ''user_id'' = JNum 2"
    by (simp add: alice_adds_def get_prop_def)
  have w: "wishlist_of 1 (snd (handle sample_env sample_db PostWishlist alice_adds))
       = [\<lparr>w_id = 2, w_user_id = Some 1, w_product_id = Some 1, w_created_at = 1000\<rparr>]"
    unfolding alice_adds_once by (simp add: wishlist_of_def sample_db_def)
  from wishlist_isolation[of DeleteWishlist sample_env alice_removes sample_db alice_claims]
       wishlist_isolation[of PostWishlist sample_env alice_adds sample_db alice_claims]
       r i o b d g u w alice_removes_authenticated alice_adds_authenticated
  show ?thesis by simp
qed

end
